theory Spec2Isabelle
  imports Main "HOL-Library.AList" "HOL-Library.Word"
begin

section \<open>JavaScript values and the built-in Map\<close>

text \<open>
  The primitive values that the arithmetic of the native facade meets: \<open>undefined\<close>,
  booleans and numbers. \<open>Number n\<close> is an integer-valued double (integers up to
  \<open>2^53\<close> are doubles, and arithmetic on them is exact while it stays there; \<open>-0\<close>
  is not told apart from \<open>0\<close>, which \<open>===\<close> does not do either); \<open>NaN\<close> is the
  double that is not a number. These values are closed under \<open>+\<close>, \<open>*\<close> and
  \<open>%\<close>.
\<close>

datatype prim =
    Undefined
  | Bool bool
  | Number int
  | NaN

text \<open>The values that sessions store and that the facades return.\<close>

datatype jsval =
    Prim prim
  | Str string
  | Arr "jsval list"

text \<open>\<open>ToNumber\<close> (\<open>None\<close> is \<open>NaN\<close>), \<open>ToBoolean\<close>, and the operators.\<close>

fun ToNumber :: "prim \<Rightarrow> int option" where
  "ToNumber Undefined = None"
| "ToNumber (Bool b) = Some (if b then 1 else 0)"
| "ToNumber (Number n) = Some n"
| "ToNumber NaN = None"

fun ToBoolean :: "prim \<Rightarrow> bool" where
  "ToBoolean Undefined = False"
| "ToBoolean (Bool b) = b"
| "ToBoolean (Number n) = (n \<noteq> 0)"
| "ToBoolean NaN = False"

definition js_add :: "prim \<Rightarrow> prim \<Rightarrow> prim" where
  "js_add a b =
     (case (ToNumber a, ToNumber b) of (Some x, Some y) \<Rightarrow> Number (x + y) | _ \<Rightarrow> NaN)"

definition js_mul :: "prim \<Rightarrow> prim \<Rightarrow> prim" where
  "js_mul a b =
     (case (ToNumber a, ToNumber b) of (Some x, Some y) \<Rightarrow> Number (x * y) | _ \<Rightarrow> NaN)"

text \<open>\<open>a % b\<close>: the remainder has the sign of the dividend; by zero it is \<open>NaN\<close>.\<close>

definition js_rem :: "prim \<Rightarrow> prim \<Rightarrow> prim" where
  "js_rem a b =
     (case (ToNumber a, ToNumber b) of
        (Some x, Some y) \<Rightarrow> if y = 0 then NaN else Number (sgn x * (\<bar>x\<bar> mod \<bar>y\<bar>))
      | _ \<Rightarrow> NaN)"

fun js_strict_equal :: "prim \<Rightarrow> prim \<Rightarrow> bool" where
  "js_strict_equal Undefined Undefined = True"
| "js_strict_equal (Bool a) (Bool b) = (a = b)"
| "js_strict_equal (Number a) (Number b) = (a = b)"
| "js_strict_equal _ _ = False"

text \<open>
  A JavaScript \<open>Map\<close> keeps its keys in insertion order: \<open>set\<close> on a key that is
  present replaces the value in place, on a new key it appends; \<open>delete\<close> removes
  the entry. This is an association list with \<open>AList.update\<close> and \<open>AList.delete\<close>.
\<close>

type_synonym ('k, 'v) jsmap = "('k \<times> 'v) list"

definition Map_get :: "('k, 'v) jsmap \<Rightarrow> 'k \<Rightarrow> 'v option" where
  "Map_get m k = map_of m k"

definition Map_has :: "('k, 'v) jsmap \<Rightarrow> 'k \<Rightarrow> bool" where
  "Map_has m k = (map_of m k \<noteq> None)"

definition Map_set :: "'k \<Rightarrow> 'v \<Rightarrow> ('k, 'v) jsmap \<Rightarrow> ('k, 'v) jsmap" where
  "Map_set k v m = AList.update k v m"

definition Map_delete :: "'k \<Rightarrow> ('k, 'v) jsmap \<Rightarrow> ('k, 'v) jsmap" where
  "Map_delete k m = AList.delete k m"

definition Map_clear :: "('k, 'v) jsmap \<Rightarrow> ('k, 'v) jsmap" where
  "Map_clear m = []"

section \<open>Sessions (core/worm.js, class WormSession)\<close>

text \<open>
  \<open>new Date()\<close> reads the wall clock; the reading (milliseconds since the epoch) is an
  argument of the model.
\<close>

record HistoryRecord =
  timestamp :: nat
  operation :: string
  result :: jsval

record WormSession =
  name :: string
  context' :: "(string, jsval) jsmap"
  history :: "HistoryRecord list"

definition WormSession_new :: "string \<Rightarrow> WormSession" where
  "WormSession_new n = \<lparr>name = n, context' = [], history = []\<rparr>"

definition WormSession_set :: "string \<Rightarrow> jsval \<Rightarrow> WormSession \<Rightarrow> WormSession" where
  "WormSession_set key v s = s\<lparr>context' := Map_set key v (context' s)\<rparr>"

definition WormSession_get :: "string \<Rightarrow> WormSession \<Rightarrow> jsval" where
  "WormSession_get key s = (case Map_get (context' s) key of None \<Rightarrow> Prim Undefined | Some v \<Rightarrow> v)"

definition WormSession_addToHistory ::
    "nat \<Rightarrow> string \<Rightarrow> jsval \<Rightarrow> WormSession \<Rightarrow> WormSession" where
  "WormSession_addToHistory now op res s =
     s\<lparr>history := history s @ [\<lparr>timestamp = now, operation = op, result = res\<rparr>]\<rparr>"

definition WormSession_cleanup :: "WormSession \<Rightarrow> WormSession" where
  "WormSession_cleanup s = s\<lparr>context' := Map_clear (context' s), history := []\<rparr>"

text \<open>
  What a caller can do with an open session: \<open>set\<close>, \<open>get\<close> (which changes nothing)
  and \<open>addToHistory\<close>, the latter with the clock reading it takes.
\<close>

datatype session_call =
    CallSet string jsval
  | CallGet string
  | CallAddToHistory nat string jsval

fun session_step :: "WormSession \<Rightarrow> session_call \<Rightarrow> WormSession" where
  "session_step s (CallSet k v) = WormSession_set k v s"
| "session_step s (CallGet k) = s"
| "session_step s (CallAddToHistory now op res) = WormSession_addToHistory now op res s"

definition session_run :: "WormSession \<Rightarrow> session_call list \<Rightarrow> WormSession" where
  "session_run s cs = foldl session_step s cs"

text \<open>The records that a sequence of calls asks for, in call order.\<close>

fun records_of :: "session_call list \<Rightarrow> HistoryRecord list" where
  "records_of [] = []"
| "records_of (CallAddToHistory now op res # cs) =
     \<lparr>timestamp = now, operation = op, result = res\<rparr> # records_of cs"
| "records_of (c # cs) = records_of cs"

text \<open>The clock readings taken by a sequence of calls (one per \<open>addToHistory\<close>).\<close>

fun clock_readings :: "session_call list \<Rightarrow> nat list" where
  "clock_readings [] = []"
| "clock_readings (CallAddToHistory now op res # cs) = now # clock_readings cs"
| "clock_readings (c # cs) = clock_readings cs"

section \<open>The session registry (core/worm.js, class WormCore)\<close>

text \<open>
  Sessions are objects: \<open>getSession\<close> hands out the object that \<open>createSession\<close>
  made, and a caller may keep one that the registry no longer holds. The model keeps
  the session objects in a store (\<open>objects\<close>, a reference is an index into it, a new
  object goes to the end) and lets the registry map names to references.
\<close>

type_synonym ref = nat

record WormCore =
  objects :: "WormSession list"
  sessions :: "(string, ref) jsmap"

definition WormCore_new :: WormCore where
  "WormCore_new = \<lparr>objects = [], sessions = []\<rparr>"

definition WormCore_createSession :: "string \<Rightarrow> WormCore \<Rightarrow> ref \<times> WormCore" where
  "WormCore_createSession n w =
     (let session = length (objects w)
      in (session, w\<lparr>objects := objects w @ [WormSession_new n],
                       sessions := Map_set n session (sessions w)\<rparr>))"

text \<open>\<open>this.sessions.get(name) || null\<close>: \<open>None\<close> is the \<open>null\<close> of the source.\<close>

definition WormCore_getSession :: "string \<Rightarrow> WormCore \<Rightarrow> ref option" where
  "WormCore_getSession n w = Map_get (sessions w) n"

definition WormCore_closeSession :: "string \<Rightarrow> WormCore \<Rightarrow> WormCore" where
  "WormCore_closeSession n w =
     (case Map_get (sessions w) n of
        None \<Rightarrow> w
      | Some session \<Rightarrow>
          w\<lparr>objects := (objects w)[session := WormSession_cleanup (objects w ! session)],
            sessions := Map_delete n (sessions w)\<rparr>)"

definition WormCore_shutdown :: "WormCore \<Rightarrow> WormCore" where
  "WormCore_shutdown w =
     w\<lparr>objects := foldl (\<lambda>h (n, session). h[session := WormSession_cleanup (h ! session)])
                      (objects w) (sessions w),
       sessions := Map_clear (sessions w)\<rparr>"

text \<open>
  The calls a program can make on the registry, and on any session object it holds
  (also one that was closed or displaced).
\<close>

datatype core_call =
    CreateSession string
  | GetSession string
  | CloseSession string
  | Shutdown
  | OnSession ref session_call

fun core_step :: "WormCore \<Rightarrow> core_call \<Rightarrow> WormCore" where
  "core_step w (CreateSession n) = snd (WormCore_createSession n w)"
| "core_step w (GetSession n) = w"
| "core_step w (CloseSession n) = WormCore_closeSession n w"
| "core_step w Shutdown = WormCore_shutdown w"
| "core_step w (OnSession r c) =
     (if r < length (objects w)
      then w\<lparr>objects := (objects w)[r := session_step (objects w ! r) c]\<rparr> else w)"

definition core_run :: "WormCore \<Rightarrow> core_call list \<Rightarrow> WormCore" where
  "core_run w cs = foldl core_step w cs"

text \<open>
  The registry's invariant: no name twice, and every registered reference is an
  allocated object.
\<close>

definition core_inv :: "WormCore \<Rightarrow> bool" where
  "core_inv w \<longleftrightarrow>
     distinct (map fst (sessions w)) \<and> (\<forall>r \<in> snd ` set (sessions w). r < length (objects w))"

section \<open>Bytes and base64 (Node's Buffer)\<close>

type_synonym byte = "8 word"
type_synonym bytes = "byte list"

text \<open>
  \<open>buf.toString('base64')\<close> writes RFC 4648 base64 with padding; \<open>Buffer.from(s,
  'base64')\<close> reads it back. The reader accepts the URL-safe letters too; it is
  modelled as skipping every other character and stopping at the first \<open>=\<close>, which is
  exact on everything the writer produces.
\<close>

definition base64_alphabet :: string where
  "base64_alphabet = ''ABCDEFGHIJKLMNOPQRSTUVWXYZabcdefghijklmnopqrstuvwxyz0123456789+/''"

definition base64_char :: "nat \<Rightarrow> char" where
  "base64_char n = base64_alphabet ! (n mod 64)"

fun index_of :: "'a \<Rightarrow> 'a list \<Rightarrow> nat option" where
  "index_of c [] = None"
| "index_of c (x # xs) =
     (if c = x then Some 0 else (case index_of c xs of None \<Rightarrow> None | Some i \<Rightarrow> Some (Suc i)))"

definition base64_value :: "char \<Rightarrow> nat option" where
  "base64_value c =
     (if c = CHR ''-'' then Some 62 else if c = CHR ''_'' then Some 63
      else index_of c base64_alphabet)"

fun base64_encode :: "bytes \<Rightarrow> string" where
  "base64_encode [] = []"
| "base64_encode [a] =
     [base64_char (unat a div 4), base64_char (unat a mod 4 * 16), CHR ''='', CHR ''='']"
| "base64_encode [a, b] =
     [base64_char (unat a div 4), base64_char (unat a mod 4 * 16 + unat b div 16),
      base64_char (unat b mod 16 * 4), CHR ''='']"
| "base64_encode (a # b # c # rest) =
     [base64_char (unat a div 4), base64_char (unat a mod 4 * 16 + unat b div 16),
      base64_char (unat b mod 16 * 4 + unat c div 64), base64_char (unat c mod 64)]
     @ base64_encode rest"

fun sextets :: "string \<Rightarrow> nat list" where
  "sextets [] = []"
| "sextets (c # cs) =
     (if c = CHR ''='' then []
      else (case base64_value c of None \<Rightarrow> sextets cs | Some v \<Rightarrow> v # sextets cs))"

fun sextets_to_bytes :: "nat list \<Rightarrow> bytes" where
  "sextets_to_bytes (p # q # r # s # rest) =
     [of_nat (p * 4 + q div 16), of_nat (q mod 16 * 16 + r div 4), of_nat (r mod 4 * 64 + s)]
     @ sextets_to_bytes rest"
| "sextets_to_bytes [p, q, r] = [of_nat (p * 4 + q div 16), of_nat (q mod 16 * 16 + r div 4)]"
| "sextets_to_bytes [p, q] = [of_nat (p * 4 + q div 16)]"
| "sextets_to_bytes _ = []"

definition base64_decode :: "string \<Rightarrow> bytes" where
  "base64_decode s = sextets_to_bytes (sextets s)"

section \<open>Archives and the host (yauzl, zlib, JSON, fs)\<close>

text \<open>
  The archive libraries are not part of the repository. A blob is modelled by what the
  libraries make of it:
  \<^item> \<open>ZipArchive es\<close> is a zip file that \<open>yauzl.fromBuffer\<close> opens; \<open>es\<close> is what
    the zipfile then reports, in order, one item for each \<open>readEntry()\<close>, and
    \<open>'end'\<close> after the last;
  \<^item> \<open>GzipJson doc\<close> is the gzip compression of the JSON text of \<open>doc\<close>, so
    \<open>gunzipSync\<close> and \<open>JSON.parse\<close> give \<open>doc\<close> back;
  \<^item> \<open>Garbage\<close> is anything else: \<open>yauzl.fromBuffer\<close> calls back with an error on
    it, and \<open>gunzipSync\<close> or \<open>JSON.parse\<close> throws.
  \<open>yauzl\<close> rejects a gzip blob and \<open>gunzipSync\<close> rejects a zip file.

  What the zipfile reports for a \<open>readEntry()\<close> is an \<open>'entry'\<close> event with the
  entry's \<open>fileName\<close>, or an \<open>'error'\<close> event (a corrupt central directory, an
  invalid file name), after which it reports nothing more. For an entry,
  \<open>openReadStream\<close> calls back with an error (\<open>OpenFails\<close>), or with a stream that
  delivers the bytes and ends (\<open>Delivers\<close>), or with a stream that emits \<open>'error'\<close>
  before it ends (\<open>StreamError\<close>: corrupt compressed data, a wrong size).
\<close>

datatype stream_result = Delivers bytes | OpenFails | StreamError

datatype zip_event = ZipEntry string stream_result | ZipError

text \<open>
  A value of the \<open>files\<close> object of a parsed document: a JSON string, or a value on
  which \<open>Buffer.from(value, 'base64')\<close> throws a TypeError (a number, a boolean,
  \<open>null\<close>).
\<close>

datatype file_value = JsonString string | NotAString

text \<open>
  A plain JavaScript object used as a dictionary from strings, as an association list
  in the order in which \<open>Object.entries\<close> and \<open>JSON.stringify\<close> enumerate it:
  array-index keys first, in ascending numeric order, then the other keys in insertion
  order. \<open>obj[key] = value\<close> with the key \<open>__proto__\<close> goes to the accessor
  inherited from \<open>Object.prototype\<close>, which ignores a value that is neither an
  object nor \<open>null\<close>: no property is created.
\<close>

type_synonym 'v jsobject = "(string \<times> 'v) list"

definition is_digit :: "char \<Rightarrow> bool" where
  "is_digit c \<longleftrightarrow> of_char c \<ge> (48::int) \<and> of_char c \<le> (57::int)"

definition digits_value :: "string \<Rightarrow> int" where
  "digits_value s = foldl (\<lambda>n c. 10 * n + (of_char c - 48)) 0 s"

definition array_index :: "string \<Rightarrow> int option" where
  "array_index s =
     (if s \<noteq> [] \<and> list_all is_digit s \<and> (hd s \<noteq> CHR ''0'' \<or> s = ''0'')
         \<and> digits_value s < 4294967295
      then Some (digits_value s) else None)"

fun insert_index_key :: "int \<Rightarrow> string \<Rightarrow> 'v \<Rightarrow> 'v jsobject \<Rightarrow> 'v jsobject" where
  "insert_index_key i k v [] = [(k, v)]"
| "insert_index_key i k v ((k', v') # rest) =
     (case array_index k' of
        Some j \<Rightarrow> (if j < i then (k', v') # insert_index_key i k v rest
                   else (k, v) # (k', v') # rest)
      | None \<Rightarrow> (k, v) # (k', v') # rest)"

definition object_set :: "string \<Rightarrow> 'v \<Rightarrow> 'v jsobject \<Rightarrow> 'v jsobject" where
  "object_set k v obj =
     (if k = ''__proto__'' then obj
      else if map_of obj k \<noteq> None then AList.update k v obj
      else (case array_index k of
              Some i \<Rightarrow> insert_index_key i k v obj
            | None \<Rightarrow> obj @ [(k, v)]))"

record container_doc =
  version :: string
  created :: string
  files :: "file_value jsobject"

datatype blob =
    Garbage
  | ZipArchive "zip_event list"
  | GzipJson container_doc

text \<open>
  What the store sees of its host: the container compiled into the binary
  (\<open>global.__WORM_EMBEDDED_CONTAINER__\<close>, \<open>None\<close> when unset) and the files of the
  real file system. \<open>Unreadable\<close> is a path that exists but on which
  \<open>readFileSync\<close> throws.
\<close>

datatype fs_node = Missing | Unreadable | File blob

record host =
  embedded_container :: "blob option"
  fs :: "string \<Rightarrow> fs_node"

datatype error =
    NotFound string
  | Error string
  | ReadFailure
  | ZipFailure
  | DecodeFailure
  | TypeError

section \<open>The container store (core/container/container.js)\<close>

text \<open>
  Both classes, \<open>WormContainer\<close> (zip) and \<open>WormSimpleContainer\<close> (gzip of JSON),
  have the same fields, and the same methods but for \<open>parseContainerData\<close> and
  \<open>save\<close>. The shared methods take the class's \<open>parseContainerData\<close> as their first
  argument.

  An asynchronous step ends in one of three ways, and leaves the store in some state:
  its promise resolves; it rejects (or the step throws) with an error; or an
  \<open>'error'\<close> event for which nobody listens is thrown as an uncaught exception, outside
  the promise, which then never settles. A method that awaits such a step never
  returns: its result is \<open>None\<close>.
\<close>

record container =
  containerPath :: string
  memoryFs :: "(string, bytes) jsmap"
  isLoaded :: bool
  isEmbedded :: bool

datatype signal = Resolved | Rejected error | Uncaught error

type_synonym parser = "blob \<Rightarrow> container \<Rightarrow> signal \<times> container"

text \<open>
  The constructor, given the path it settles on (\<open>containerPath ||
  this.getDefaultContainerPath()\<close>) and whether the process is a packaged binary
  (\<open>process.pkg !== undefined\<close>).
\<close>

definition container_new :: "string \<Rightarrow> bool \<Rightarrow> container" where
  "container_new path pkg =
     \<lparr>containerPath = path, memoryFs = [], isLoaded = False, isEmbedded = pkg\<rparr>"

text \<open>\<open>/\/$/.test(entry.fileName)\<close>\<close>

definition ends_with_slash :: "string \<Rightarrow> bool" where
  "ends_with_slash s \<longleftrightarrow> s \<noteq> [] \<and> last s = CHR ''/''"

text \<open>
  The zip format's \<open>parseContainerData\<close>. The promise is rejected in the callbacks of
  \<open>fromBuffer\<close> and of \<open>openReadStream\<close> only; no listener is registered for
  \<open>'error'\<close> on the zipfile or on a read stream.
\<close>

fun read_entries :: "zip_event list \<Rightarrow> container \<Rightarrow> signal \<times> container" where
  "read_entries [] c = (Resolved, c)"
| "read_entries (ZipError # es) c = (Uncaught ZipFailure, c)"
| "read_entries (ZipEntry fileName stream # es) c =
     (if ends_with_slash fileName then read_entries es c
      else (case stream of
              OpenFails \<Rightarrow> (Rejected ZipFailure, c)
            | StreamError \<Rightarrow> (Uncaught ZipFailure, c)
            | Delivers buffer \<Rightarrow>
                read_entries es (c\<lparr>memoryFs := Map_set fileName buffer (memoryFs c)\<rparr>)))"

definition WormContainer_parseContainerData :: parser where
  "WormContainer_parseContainerData data c =
     (case data of ZipArchive es \<Rightarrow> read_entries es c | _ \<Rightarrow> (Rejected ZipFailure, c))"

text \<open>
  The body of the \<open>try\<close> of the simple format's \<open>parseContainerData\<close>, which is
  synchronous, and the method itself, whose \<open>catch\<close> only logs a warning.
\<close>

fun load_files :: "(string \<times> file_value) list \<Rightarrow> container \<Rightarrow> error option \<times> container" where
  "load_files [] c = (None, c)"
| "load_files ((filePath, encodedContent) # rest) c =
     (case encodedContent of
        NotAString \<Rightarrow> (Some TypeError, c)
      | JsonString s \<Rightarrow>
          load_files rest (c\<lparr>memoryFs := Map_set filePath (base64_decode s) (memoryFs c)\<rparr>))"

definition simple_parse_try :: "blob \<Rightarrow> container \<Rightarrow> error option \<times> container" where
  "simple_parse_try data c =
     (case data of GzipJson doc \<Rightarrow> load_files (files doc) c | _ \<Rightarrow> (Some DecodeFailure, c))"

definition WormSimpleContainer_parseContainerData :: parser where
  "WormSimpleContainer_parseContainerData data c = (Resolved, snd (simple_parse_try data c))"

definition loadEmbeddedContainer :: "parser \<Rightarrow> host \<Rightarrow> container \<Rightarrow> signal \<times> container" where
  "loadEmbeddedContainer parse h c =
     (case embedded_container h of
        None \<Rightarrow> (Resolved, c)
      | Some embeddedData \<Rightarrow> parse embeddedData c)"

definition loadContainerFile :: "parser \<Rightarrow> host \<Rightarrow> container \<Rightarrow> signal \<times> container" where
  "loadContainerFile parse h c =
     (case fs h (containerPath c) of
        Missing \<Rightarrow> (Resolved, c)
      | Unreadable \<Rightarrow> (Rejected ReadFailure, c)
      | File data \<Rightarrow> parse data c)"

text \<open>The body of the \<open>try\<close> of \<open>load\<close> up to the assignment, and \<open>load\<close>.\<close>

definition load_try :: "parser \<Rightarrow> host \<Rightarrow> container \<Rightarrow> signal \<times> container" where
  "load_try parse h c =
     (if isEmbedded c then loadEmbeddedContainer parse h c else loadContainerFile parse h c)"

definition container_load :: "parser \<Rightarrow> host \<Rightarrow> container \<Rightarrow> container option" where
  "container_load parse h c =
     (if isLoaded c then Some c
      else (case load_try parse h c of
              (Resolved, c') \<Rightarrow> Some (c'\<lparr>isLoaded := True\<rparr>)
            | (Rejected e, c') \<Rightarrow> Some (c'\<lparr>isLoaded := True\<rparr>)
            | (Uncaught e, c') \<Rightarrow> None))"

definition container_read ::
    "parser \<Rightarrow> host \<Rightarrow> string \<Rightarrow> container \<Rightarrow> ((error + bytes) \<times> container) option" where
  "container_read parse h filePath c =
     (case container_load parse h c of
        None \<Rightarrow> None
      | Some c' \<Rightarrow>
          (case Map_get (memoryFs c') filePath of
             None \<Rightarrow> Some (Inl (NotFound filePath), c')
           | Some content \<Rightarrow> Some (Inr content, c')))"

definition container_write ::
    "parser \<Rightarrow> host \<Rightarrow> string \<Rightarrow> bytes \<Rightarrow> container \<Rightarrow> container option" where
  "container_write parse h filePath content c =
     (case container_load parse h c of
        None \<Rightarrow> None
      | Some c' \<Rightarrow> Some (c'\<lparr>memoryFs := Map_set filePath content (memoryFs c')\<rparr>))"

definition container_exists ::
    "parser \<Rightarrow> host \<Rightarrow> string \<Rightarrow> container \<Rightarrow> (bool \<times> container) option" where
  "container_exists parse h filePath c =
     (case container_load parse h c of
        None \<Rightarrow> None
      | Some c' \<Rightarrow> Some (Map_has (memoryFs c') filePath, c'))"

definition container_remove ::
    "parser \<Rightarrow> host \<Rightarrow> string \<Rightarrow> container \<Rightarrow> (bool \<times> container) option" where
  "container_remove parse h filePath c =
     (case container_load parse h c of
        None \<Rightarrow> None
      | Some c' \<Rightarrow>
          (if Map_has (memoryFs c') filePath
           then Some (True, c'\<lparr>memoryFs := Map_delete filePath (memoryFs c')\<rparr>)
           else Some (False, c')))"

definition container_clear :: "container \<Rightarrow> container" where
  "container_clear c = c\<lparr>memoryFs := Map_clear (memoryFs c)\<rparr>"

definition WormContainer_load :: "host \<Rightarrow> container \<Rightarrow> container option" where
  "WormContainer_load = container_load WormContainer_parseContainerData"

definition WormContainer_read ::
    "host \<Rightarrow> string \<Rightarrow> container \<Rightarrow> ((error + bytes) \<times> container) option" where
  "WormContainer_read = container_read WormContainer_parseContainerData"

definition WormContainer_write ::
    "host \<Rightarrow> string \<Rightarrow> bytes \<Rightarrow> container \<Rightarrow> container option" where
  "WormContainer_write = container_write WormContainer_parseContainerData"

definition WormContainer_exists ::
    "host \<Rightarrow> string \<Rightarrow> container \<Rightarrow> (bool \<times> container) option" where
  "WormContainer_exists = container_exists WormContainer_parseContainerData"

definition WormContainer_remove ::
    "host \<Rightarrow> string \<Rightarrow> container \<Rightarrow> (bool \<times> container) option" where
  "WormContainer_remove = container_remove WormContainer_parseContainerData"

definition WormSimpleContainer_load :: "host \<Rightarrow> container \<Rightarrow> container option" where
  "WormSimpleContainer_load = container_load WormSimpleContainer_parseContainerData"

definition WormSimpleContainer_read ::
    "host \<Rightarrow> string \<Rightarrow> container \<Rightarrow> ((error + bytes) \<times> container) option" where
  "WormSimpleContainer_read = container_read WormSimpleContainer_parseContainerData"

definition WormSimpleContainer_write ::
    "host \<Rightarrow> string \<Rightarrow> bytes \<Rightarrow> container \<Rightarrow> container option" where
  "WormSimpleContainer_write = container_write WormSimpleContainer_parseContainerData"

definition WormSimpleContainer_exists ::
    "host \<Rightarrow> string \<Rightarrow> container \<Rightarrow> (bool \<times> container) option" where
  "WormSimpleContainer_exists = container_exists WormSimpleContainer_parseContainerData"

definition WormSimpleContainer_remove ::
    "host \<Rightarrow> string \<Rightarrow> container \<Rightarrow> (bool \<times> container) option" where
  "WormSimpleContainer_remove = container_remove WormSimpleContainer_parseContainerData"

text \<open>
  The archive that a store loads from: the embedded container for a store in a packaged
  binary, the file at \<open>containerPath\<close> otherwise. It is absent or undecodable for a
  codec when there is none, when it cannot be read, or when the codec's library rejects
  the blob as a whole.
\<close>

definition backing :: "host \<Rightarrow> container \<Rightarrow> fs_node" where
  "backing h c =
     (if isEmbedded c
      then (case embedded_container h of None \<Rightarrow> Missing | Some d \<Rightarrow> File d)
      else fs h (containerPath c))"

fun is_zip :: "blob \<Rightarrow> bool" where
  "is_zip (ZipArchive es) = True"
| "is_zip _ = False"

fun is_gzip_json :: "blob \<Rightarrow> bool" where
  "is_gzip_json (GzipJson doc) = True"
| "is_gzip_json _ = False"

definition absent_or_undecodable :: "(blob \<Rightarrow> bool) \<Rightarrow> fs_node \<Rightarrow> bool" where
  "absent_or_undecodable accepts n =
     (case n of Missing \<Rightarrow> True | Unreadable \<Rightarrow> True | File d \<Rightarrow> \<not> accepts d)"

text \<open>A zip entry that is a file whose read stream delivers its bytes.\<close>

fun delivers :: "zip_event \<Rightarrow> bool" where
  "delivers (ZipEntry fileName (Delivers buffer)) = True"
| "delivers _ = False"

text \<open>
  \<open>save\<close> of the simple format, for a host on which creating the directory and writing
  the file succeed. \<open>now\<close> is \<open>new Date().toISOString()\<close>; an \<open>outputPath\<close> that is
  missing or empty falls back to \<open>containerPath\<close>. \<open>files_of\<close> is the loop
  \<open>for (const [filePath, content] of this.memoryFs)
  container.files[filePath] = content.toString('base64')\<close>, started on \<open>{}\<close>.
\<close>

definition files_of :: "(string, bytes) jsmap \<Rightarrow> file_value jsobject" where
  "files_of m = foldl (\<lambda>obj (filePath, content).
      object_set filePath (JsonString (base64_encode content)) obj) [] m"

definition WormSimpleContainer_save ::
    "string \<Rightarrow> string option \<Rightarrow> host \<Rightarrow> container \<Rightarrow> (host \<times> container) option" where
  "WormSimpleContainer_save now outputPath h c =
     (case WormSimpleContainer_load h c of
        None \<Rightarrow> None
      | Some c' \<Rightarrow>
          (let targetPath = (case outputPath of
                               None \<Rightarrow> containerPath c'
                             | Some p \<Rightarrow> if p = [] then containerPath c' else p);
               container = \<lparr>version = ''1.0'', created = now, files = files_of (memoryFs c')\<rparr>
           in Some (h\<lparr>fs := (fs h)(targetPath := File (GzipJson container))\<rparr>, c')))"

section \<open>The native facade (adapters/js-adapter.js)\<close>

text \<open>
  The built-in array methods, for callbacks that return normally and use only their
  first argument (\<open>filter\<close>, \<open>map\<close>) or first two (\<open>reduce\<close>).
  \<open>Array.prototype.reduce\<close> tells a call with an initial value from one without by
  the number of arguments it is given: \<open>None\<close> is the call with one argument, and on
  an empty array that call throws a TypeError.
\<close>

definition Array_filter :: "('a \<Rightarrow> prim) \<Rightarrow> 'a list \<Rightarrow> 'a list" where
  "Array_filter func xs = filter (\<lambda>x. ToBoolean (func x)) xs"

definition Array_map :: "('a \<Rightarrow> 'b) \<Rightarrow> 'a list \<Rightarrow> 'b list" where
  "Array_map func xs = map func xs"

fun Array_reduce :: "('a \<Rightarrow> 'a \<Rightarrow> 'a) \<Rightarrow> 'a option \<Rightarrow> 'a list \<Rightarrow> error + 'a" where
  "Array_reduce func (Some initialValue) xs = Inr (foldl func initialValue xs)"
| "Array_reduce func None [] = Inl TypeError"
| "Array_reduce func None (x # xs) = Inr (foldl func x xs)"

record 'a JsArray =
  data :: "'a list"

definition JsContext_array :: "'a list \<Rightarrow> 'a JsArray" where
  "JsContext_array d = \<lparr>data = d\<rparr>"

definition JsArray_map :: "('a \<Rightarrow> 'b) \<Rightarrow> 'a JsArray \<Rightarrow> 'b JsArray" where
  "JsArray_map func a = \<lparr>data = Array_map func (data a)\<rparr>"

definition JsArray_filter :: "('a \<Rightarrow> prim) \<Rightarrow> 'a JsArray \<Rightarrow> 'a JsArray" where
  "JsArray_filter func a = \<lparr>data = Array_filter func (data a)\<rparr>"

text \<open>
  \<open>reduce(func, initial) { return this.data.reduce(func, initial); }\<close>: the wrapper
  passes its parameter \<open>initial\<close> on in every call, and that parameter is
  \<open>undefined\<close> when the caller gave none.
\<close>

definition JsArray_reduce ::
    "(prim \<Rightarrow> prim \<Rightarrow> prim) \<Rightarrow> prim option \<Rightarrow> prim JsArray \<Rightarrow> error + prim" where
  "JsArray_reduce func initial a =
     Array_reduce func (Some (case initial of None \<Rightarrow> Undefined | Some v \<Rightarrow> v)) (data a)"

definition JsArray_sum :: "prim JsArray \<Rightarrow> error + prim" where
  "JsArray_sum a = Array_reduce (\<lambda>a b. js_add a b) (Some (Number 0)) (data a)"

definition JsArray_toArray :: "'a JsArray \<Rightarrow> 'a list" where
  "JsArray_toArray a = data a"

text \<open>
  The callbacks of the test of the fluent chain: \<open>x => x % 2 === 0\<close>,
  \<open>x => x * x\<close> and \<open>(a, b) => a + b\<close>.
\<close>

definition is_even :: "prim \<Rightarrow> prim" where
  "is_even x = Bool (js_strict_equal (js_rem x (Number 2)) (Number 0))"

definition square :: "prim \<Rightarrow> prim" where
  "square x = js_mul x x"

definition plus :: "prim \<Rightarrow> prim \<Rightarrow> prim" where
  "plus a b = js_add a b"

section \<open>The C++ and Python facades (adapters/cpp-adapter.js, adapters/python-adapter.js)\<close>

definition session_addToHistory :: "ref \<Rightarrow> nat \<Rightarrow> string \<Rightarrow> jsval \<Rightarrow> WormCore \<Rightarrow> WormCore" where
  "session_addToHistory session now op res w =
     w\<lparr>objects := (objects w)[session := WormSession_addToHistory now op res (objects w ! session)]\<rparr>"

fun join :: "string \<Rightarrow> string list \<Rightarrow> string" where
  "join sep [] = []"
| "join sep [x] = x"
| "join sep (x # y # rest) = x @ sep @ join sep (y # rest)"

text \<open>
  A function of a C++ library. \<open>nativeFunc\<close> is the binding that \<open>ffi-napi\<close> made, or
  \<open>None\<close> for the placeholder that \<open>CppLibrary.function\<close> creates when there is no
  binding; a call of the binding returns a value or throws an error with a message.
  \<open>cpp_session\<close> is \<open>this.context.session\<close>. The string that \<open>args.join\<close> makes
  of an argument is given by \<open>toString\<close>.
\<close>

record CppFunction =
  cpp_name :: string
  cpp_signature :: string
  nativeFunc :: "(jsval list \<Rightarrow> string + jsval) option"
  cpp_session :: ref

definition CppFunction_call ::
    "(jsval \<Rightarrow> string) \<Rightarrow> nat \<Rightarrow> CppFunction \<Rightarrow> jsval list \<Rightarrow> WormCore
       \<Rightarrow> (error + jsval) \<times> WormCore" where
  "CppFunction_call toString now f args w =
     (case nativeFunc f of
        Some native \<Rightarrow>
          (case native args of
             Inr res \<Rightarrow>
               (Inr res,
                session_addToHistory (cpp_session f) now
                  (''cpp.'' @ cpp_name f @ ''('' @ join '', '' (map toString args) @ '')'') res w)
           | Inl message \<Rightarrow>
               (Inl (Error (''C++ function '' @ cpp_name f @ '' failed: '' @ message)), w))
      | None \<Rightarrow> (Inr (Str (''C++ '' @ cpp_name f @ '' result'')), w))"

text \<open>
  \<open>PythonShell\<close> is the module variable of the Python adapter: \<open>None\<close> when
  \<open>require('python-shell')\<close> failed, otherwise what \<open>runString\<close> reports for a
  piece of code, the results or the message of an error. A rejected promise is
  represented by the message of its error.
\<close>

type_synonym python_shell = "(string \<Rightarrow> string + jsval) option"

definition PythonContext_execute ::
    "python_shell \<Rightarrow> string \<Rightarrow> WormCore \<Rightarrow> (string + jsval) \<times> WormCore" where
  "PythonContext_execute PythonShell code w =
     (case PythonShell of
        None \<Rightarrow> (Inr (Arr [Str ''Simulated Python result'']), w)
      | Some runString \<Rightarrow> (runString code, w))"

record PythonFunction =
  py_code :: string
  py_name :: string
  py_session :: ref

text \<open>\<open>JSON.stringify\<close> of an argument that is not a string is given by \<open>stringify\<close>.\<close>

definition argsCode :: "(jsval \<Rightarrow> string) \<Rightarrow> jsval list \<Rightarrow> string" where
  "argsCode stringify args =
     join '', ''
       (map (\<lambda>arg. case arg of Str s \<Rightarrow> [CHR 0x22] @ s @ [CHR 0x22] | _ \<Rightarrow> stringify arg) args)"

definition PythonFunction_call ::
    "(jsval \<Rightarrow> string) \<Rightarrow> python_shell \<Rightarrow> nat \<Rightarrow> PythonFunction \<Rightarrow> jsval list \<Rightarrow> WormCore
       \<Rightarrow> (error + jsval) \<times> WormCore" where
  "PythonFunction_call stringify PythonShell now f args w =
     (let fullCode = [CHR 0x0A] @ py_code f @ [CHR 0x0A]
            @ ''result = '' @ py_name f @ ''('' @ argsCode stringify args @ '')'' @ [CHR 0x0A]
            @ ''print(result)'' @ [CHR 0x0A] @ ''        ''
      in (case PythonContext_execute PythonShell fullCode w of
            (Inr res, w') \<Rightarrow>
              (Inr res,
               session_addToHistory (py_session f) now
                 (''python.'' @ py_name f @ ''('' @ argsCode stringify args @ '')'') res w')
          | (Inl message, w') \<Rightarrow>
              (Inl (Error (''Python function '' @ py_name f @ '' failed: '' @ message)), w')))"

section \<open>History\<close>

lemma timestamp_records_of: "map timestamp (records_of cs) = clock_readings cs"
  by (induction cs rule: records_of.induct) simp_all

lemma session_run_history:
  "history (session_run s cs) = history s @ records_of cs"
  unfolding session_run_def
proof (induction cs arbitrary: s)
  case Nil
  show ?case by simp
next
  case (Cons c cs)
  show ?case
    by (cases c) (simp_all add: Cons.IH WormSession_set_def WormSession_addToHistory_def)
qed

lemma records_of_adds:
  "records_of (map (\<lambda>(t, l, r). CallAddToHistory t l r) xs) =
     map (\<lambda>(t, l, r). \<lparr>timestamp = t, operation = l, result = r\<rparr>) xs"
  by (induction xs) auto

lemma records_of_append: "records_of (cs @ ds) = records_of cs @ records_of ds"
  by (induction cs rule: records_of.induct) simp_all

text \<open>
  C5, as amended. On a session just created, N calls of \<open>addToHistory\<close> leave a
  history of length exactly N, holding in call order the label and result of each call.
  The timestamp of a record is the clock reading taken at its call, so the timestamps
  do not decrease when the clock readings do not. Calls of \<open>set\<close> and \<open>get\<close> in
  between change nothing of this, and every longer run extends the history of a shorter
  one: nothing is trimmed or removed.
\<close>

theorem history_of_calls:
  "history (session_run (WormSession_new n) (map (\<lambda>(t, l, r). CallAddToHistory t l r) xs))
     = map (\<lambda>(t, l, r). \<lparr>timestamp = t, operation = l, result = r\<rparr>) xs
   \<and> length (history (session_run (WormSession_new n)
         (map (\<lambda>(t, l, r). CallAddToHistory t l r) xs))) = length xs
   \<and> history (session_run (WormSession_new n) cs) = records_of cs
   \<and> map timestamp (history (session_run (WormSession_new n) cs)) = clock_readings cs
   \<and> (sorted (clock_readings cs) \<longrightarrow>
        sorted (map timestamp (history (session_run (WormSession_new n) cs))))
   \<and> history (session_run (WormSession_new n) (cs @ ds))
        = history (session_run (WormSession_new n) cs) @ records_of ds"
  by (simp add: session_run_history records_of_adds records_of_append WormSession_new_def
      timestamp_records_of)

theorem history_of_calls_witness:
  "sorted (clock_readings
      [CallAddToHistory 5 ''js.double(5)'' (Prim (Number 10)), CallSet ''k'' (Str ''v''),
       CallAddToHistory 5 ''cpp.math.sqrt(16)'' (Prim (Number 4)),
       CallAddToHistory 9 ''test.operation'' (Str ''result'')])
   \<and> map timestamp (history (session_run (WormSession_new ''test'')
      [CallAddToHistory 5 ''js.double(5)'' (Prim (Number 10)), CallSet ''k'' (Str ''v''),
       CallAddToHistory 5 ''cpp.math.sqrt(16)'' (Prim (Number 4)),
       CallAddToHistory 9 ''test.operation'' (Str ''result'')])) = [5, 5, 9]"
  using history_of_calls [of "''test''" "[]"
      "[CallAddToHistory 5 ''js.double(5)'' (Prim (Number 10)), CallSet ''k'' (Str ''v''),
        CallAddToHistory 5 ''cpp.math.sqrt(16)'' (Prim (Number 4)),
        CallAddToHistory 9 ''test.operation'' (Str ''result'')]" "[]"]
  by simp

text \<open>
  C5 as stated fails: the timestamps are readings of the wall clock (\<open>new Date()\<close>),
  which can be set back between two calls, and then they decrease.
\<close>

theorem history_timestamps_decrease:
  "map timestamp (history (session_run (WormSession_new ''test'')
      [CallAddToHistory 9 ''first'' (Str ''a''), CallAddToHistory 5 ''second'' (Str ''b'')]))
     = [9, 5]
   \<and> \<not> sorted (map timestamp (history (session_run (WormSession_new ''test'')
      [CallAddToHistory 9 ''first'' (Str ''a''), CallAddToHistory 5 ''second'' (Str ''b'')])))"
  by (simp add: session_run_def WormSession_new_def WormSession_addToHistory_def)

section \<open>The registry\<close>

lemma set_update_subset: "set (AList.update k v al) \<subseteq> insert (k, v) (set al)"
  by (induction al) auto

lemma length_cleanup_fold:
  "length (foldl (\<lambda>h (n, session). h[session := WormSession_cleanup (h ! session)]) h xs) = length h"
  by (induction xs arbitrary: h) (auto split: prod.splits)

lemma core_inv_createSession: "core_inv w \<Longrightarrow> core_inv (snd (WormCore_createSession n w))"
  using set_update_subset [of n "length (objects w)" "sessions w"]
  by (auto simp: core_inv_def WormCore_createSession_def Let_def Map_set_def distinct_update
      less_Suc_eq)

lemma core_inv_closeSession:
  assumes inv: "core_inv w"
  shows "core_inv (WormCore_closeSession n w)"
proof (cases "Map_get (sessions w) n")
  case None
  with inv show ?thesis by (simp add: WormCore_closeSession_def)
next
  case (Some r)
  have "set (AList.delete n (sessions w)) \<subseteq> set (sessions w)"
    by (auto simp: AList.delete_eq)
  with inv Some show ?thesis
    by (auto simp: core_inv_def WormCore_closeSession_def Map_delete_def distinct_delete)
qed

lemma core_inv_shutdown: "core_inv (WormCore_shutdown w)"
  by (simp add: core_inv_def WormCore_shutdown_def Map_clear_def)

lemma core_inv_step: "core_inv w \<Longrightarrow> core_inv (core_step w c)"
  by (cases c) (auto simp: core_inv_createSession core_inv_closeSession core_inv_shutdown, auto simp: core_inv_def)

lemma core_inv_run: "core_inv w \<Longrightarrow> core_inv (core_run w cs)"
  unfolding core_run_def by (induction cs arbitrary: w) (simp_all add: core_inv_step)

lemma core_inv_new: "core_inv WormCore_new"
  by (simp add: core_inv_def WormCore_new_def)

lemma getSession_step_other:
  "c \<noteq> CreateSession s \<Longrightarrow> c \<noteq> CloseSession s \<Longrightarrow> c \<noteq> Shutdown \<Longrightarrow>
   WormCore_getSession s (core_step w c) = WormCore_getSession s w"
  by (cases c)
    (auto simp: WormCore_getSession_def WormCore_createSession_def WormCore_closeSession_def
      Let_def Map_get_def Map_set_def Map_delete_def update_conv' delete_conv'
      split: option.splits)

lemma getSession_run_other:
  "\<forall>c \<in> set cs. c \<noteq> CreateSession s \<and> c \<noteq> CloseSession s \<and> c \<noteq> Shutdown \<Longrightarrow>
   WormCore_getSession s (core_run w cs) = WormCore_getSession s w"
  unfolding core_run_def
  by (induction cs arbitrary: w) (simp_all add: getSession_step_other)

lemma getSession_createSession:
  "WormCore_getSession s (snd (WormCore_createSession s w)) = Some (fst (WormCore_createSession s w))"
  by (simp add: WormCore_getSession_def WormCore_createSession_def Let_def Map_get_def
      Map_set_def update_conv')

lemma getSession_closeSession: "WormCore_getSession s (WormCore_closeSession s w) = None"
  by (auto simp: WormCore_getSession_def WormCore_closeSession_def Map_get_def Map_delete_def
      delete_conv' split: option.splits)

lemma getSession_shutdown: "WormCore_getSession n (WormCore_shutdown w) = None"
  by (simp add: WormCore_getSession_def WormCore_shutdown_def Map_get_def Map_clear_def)

lemma getSession_None_step:
  "c \<noteq> CreateSession s \<Longrightarrow> WormCore_getSession s w = None \<Longrightarrow>
   WormCore_getSession s (core_step w c) = None"
  by (cases c)
    (auto simp: WormCore_getSession_def WormCore_createSession_def WormCore_closeSession_def
      WormCore_shutdown_def Let_def Map_get_def Map_set_def Map_delete_def Map_clear_def
      update_conv' delete_conv' split: option.splits)

lemma getSession_None_run:
  "\<forall>c \<in> set cs. c \<noteq> CreateSession s \<Longrightarrow> WormCore_getSession s w = None \<Longrightarrow>
   WormCore_getSession s (core_run w cs) = None"
  unfolding core_run_def
  by (induction cs arbitrary: w) (simp_all add: getSession_None_step)

text \<open>
  C6. Lookup preserves identity and closure is terminal. \<open>getSession s\<close> after
  \<open>createSession s\<close> returns the reference that \<open>createSession\<close> returned, also
  after any calls in between other than \<open>createSession s\<close>, \<open>closeSession s\<close> and
  \<open>shutdown\<close>. After \<open>closeSession s\<close>, and after \<open>shutdown\<close> for every name,
  \<open>getSession\<close> returns the not-found value (\<open>None\<close>, the source's \<open>null\<close>), and
  keeps doing so until the name is created again. \<open>closeSession\<close> on an absent name
  changes nothing.
\<close>

theorem registry_lookup:
  "((\<forall>c \<in> set cs. c \<noteq> CreateSession s \<and> c \<noteq> CloseSession s \<and> c \<noteq> Shutdown) \<longrightarrow>
      WormCore_getSession s (core_run (snd (WormCore_createSession s w)) cs)
        = Some (fst (WormCore_createSession s w)))
   \<and> WormCore_getSession s (WormCore_closeSession s w) = None
   \<and> WormCore_getSession n (WormCore_shutdown w) = None
   \<and> ((\<forall>c \<in> set cs. c \<noteq> CreateSession s) \<longrightarrow>
        WormCore_getSession s (core_run (WormCore_closeSession s w) cs) = None
        \<and> WormCore_getSession s (core_run (WormCore_shutdown w) cs) = None)
   \<and> (WormCore_getSession s w = None \<longrightarrow> WormCore_closeSession s w = w)"
  by (simp add: getSession_run_other getSession_createSession getSession_closeSession
      getSession_shutdown getSession_None_run)
    (simp add: WormCore_getSession_def WormCore_closeSession_def)

theorem registry_lookup_witness:
  "list_all (\<lambda>c. c \<noteq> CreateSession ''s'' \<and> c \<noteq> CloseSession ''s'' \<and> c \<noteq> Shutdown)
      [CreateSession ''t'', OnSession 0 (CallSet ''k'' (Prim (Number 1))), CloseSession ''t'']
   \<and> WormCore_getSession ''s'' WormCore_new = None
   \<and> WormCore_getSession ''s'' (core_run (snd (WormCore_createSession ''s'' WormCore_new))
        [CreateSession ''t'', OnSession 0 (CallSet ''k'' (Prim (Number 1))), CloseSession ''t''])
        = Some 0
   \<and> WormCore_closeSession ''s'' WormCore_new = WormCore_new"
  using registry_lookup [of "[CreateSession ''t'', OnSession 0 (CallSet ''k'' (Prim (Number 1))),
      CloseSession ''t'']" "''s''" WormCore_new]
  by (simp add: WormCore_getSession_def WormCore_createSession_def WormCore_new_def Map_get_def)

lemma one_entry_per_key:
  "distinct (map fst xs) \<Longrightarrow> k \<in> set (map fst xs) \<Longrightarrow> length (filter (\<lambda>e. fst e = k) xs) = 1"
proof (induction xs)
  case Nil
  then show ?case by simp
next
  case (Cons x xs)
  show ?case
  proof (cases "fst x = k")
    case True
    with Cons.prems have "k \<notin> fst ` set xs"
      by simp
    then have "filter (\<lambda>e. fst e = k) xs = []"
      by (auto simp: filter_empty_conv)
    with True show ?thesis by simp
  next
    case False
    with Cons show ?thesis by auto
  qed
qed

lemma createSession_on_inv:
  assumes inv: "core_inv w" and old: "WormCore_getSession s w = Some old"
  shows "(let (r, w') = WormCore_createSession s w in
           WormCore_getSession s w' = Some r \<and> r \<noteq> old
           \<and> objects w' ! r = WormSession_new s
           \<and> objects w' ! old = objects w ! old
           \<and> distinct (map fst (sessions w'))
           \<and> length (filter (\<lambda>e. fst e = s) (sessions w')) = 1)"
proof -
  from old have "(s, old) \<in> set (sessions w)"
    by (simp add: WormCore_getSession_def Map_get_def map_of_SomeD)
  with inv have lt: "old < length (objects w)"
    by (force simp: core_inv_def)
  from inv have d: "distinct (map fst (sessions (snd (WormCore_createSession s w))))"
    using core_inv_createSession by (simp add: core_inv_def)
  have "s \<in> set (map fst (sessions (snd (WormCore_createSession s w))))"
    using getSession_createSession [of s w]
    by (auto simp: WormCore_getSession_def Map_get_def dest: map_of_SomeD intro: rev_image_eqI)
  with d have one: "length (filter (\<lambda>e. fst e = s) (sessions (snd (WormCore_createSession s w)))) = 1"
    by (rule one_entry_per_key)
  show ?thesis
    using lt d one getSession_createSession [of s w]
    by (simp add: WormCore_createSession_def Let_def nth_append)
qed


text \<open>
  C7. In every state that the registry can reach, no name is registered twice. When
  \<open>createSession s\<close> is called while \<open>s\<close> is registered (to the object \<open>old\<close>), the
  registry afterwards maps \<open>s\<close>, once, to a new object different from \<open>old\<close> with
  empty context and empty history, and the displaced object is exactly as it was: its
  cleanup has not run.
\<close>

theorem createSession_duplicate_name:
  "distinct (map fst (sessions (core_run WormCore_new cs)))
   \<and> (WormCore_getSession s (core_run WormCore_new cs) = Some old \<longrightarrow>
        (let (r, w') = WormCore_createSession s (core_run WormCore_new cs) in
           WormCore_getSession s w' = Some r \<and> r \<noteq> old
           \<and> objects w' ! r = WormSession_new s
           \<and> context' (objects w' ! r) = [] \<and> history (objects w' ! r) = []
           \<and> objects w' ! old = objects (core_run WormCore_new cs) ! old
           \<and> distinct (map fst (sessions w'))
           \<and> length (filter (\<lambda>e. fst e = s) (sessions w')) = 1))"
proof -
  have inv: "core_inv (core_run WormCore_new cs)"
    by (simp add: core_inv_run core_inv_new)
  then have "distinct (map fst (sessions (core_run WormCore_new cs)))"
    by (simp add: core_inv_def)
  moreover have "WormCore_getSession s (core_run WormCore_new cs) = Some old \<Longrightarrow>
        (let (r, w') = WormCore_createSession s (core_run WormCore_new cs) in
           WormCore_getSession s w' = Some r \<and> r \<noteq> old
           \<and> objects w' ! r = WormSession_new s
           \<and> context' (objects w' ! r) = [] \<and> history (objects w' ! r) = []
           \<and> objects w' ! old = objects (core_run WormCore_new cs) ! old
           \<and> distinct (map fst (sessions w'))
           \<and> length (filter (\<lambda>e. fst e = s) (sessions w')) = 1)"
    using createSession_on_inv [OF inv, of s old]
    by (simp add: WormSession_new_def split: prod.splits)
  ultimately show ?thesis by blast
qed

theorem createSession_duplicate_name_witness:
  "WormCore_getSession ''s'' (core_run WormCore_new
       [CreateSession ''s'', OnSession 0 (CallSet ''k'' (Str ''v'')),
        OnSession 0 (CallAddToHistory 7 ''op'' (Prim (Number 1)))]) = Some 0
   \<and> (let w = core_run WormCore_new
          [CreateSession ''s'', OnSession 0 (CallSet ''k'' (Str ''v'')),
           OnSession 0 (CallAddToHistory 7 ''op'' (Prim (Number 1)))];
          (r, w') = WormCore_createSession ''s'' w
       in r = 1 \<and> sessions w' = [(''s'', 1)]
          \<and> objects w' ! 1 = WormSession_new ''s''
          \<and> context' (objects w' ! 0) = [(''k'', Str ''v'')]
          \<and> history (objects w' ! 0) = [\<lparr>timestamp = 7, operation = ''op'', result = Prim (Number 1)\<rparr>])"
  using createSession_duplicate_name [of
      "[CreateSession ''s'', OnSession 0 (CallSet ''k'' (Str ''v'')),
        OnSession 0 (CallAddToHistory 7 ''op'' (Prim (Number 1)))]" "''s''" 0]
  by (simp add: core_run_def WormCore_new_def WormCore_createSession_def WormCore_getSession_def
      Map_get_def Map_set_def WormSession_new_def WormSession_set_def
      WormSession_addToHistory_def Let_def)

section \<open>The native array chain\<close>

text \<open>
  C9. The chain of the repository's test, \<open>array([1..10]).filter(x => x % 2 === 0)
  .map(x => x * x).reduce((a, b) => a + b)\<close>, does not yield 220: the wrapper hands
  \<open>undefined\<close> to the built-in \<open>reduce\<close> as the initial value, and
  \<open>undefined + 4\<close> is \<open>NaN\<close>. The squares of the even numbers are right, and
  they add up to 220 with the initial value 0, with \<open>sum()\<close>, and with the built-in
  \<open>reduce\<close> called without an initial value.
\<close>

theorem fluent_chain_without_initial:
  "JsArray_reduce plus None
     (JsArray_map square (JsArray_filter is_even
        (JsContext_array (map Number [1, 2, 3, 4, 5, 6, 7, 8, 9, 10])))) = Inr NaN
   \<and> JsArray_toArray (JsArray_map square (JsArray_filter is_even
        (JsContext_array (map Number [1, 2, 3, 4, 5, 6, 7, 8, 9, 10]))))
       = map Number [4, 16, 36, 64, 100]
   \<and> JsArray_reduce plus (Some (Number 0))
     (JsArray_map square (JsArray_filter is_even
        (JsContext_array (map Number [1, 2, 3, 4, 5, 6, 7, 8, 9, 10])))) = Inr (Number 220)
   \<and> JsArray_sum (JsArray_map square (JsArray_filter is_even
        (JsContext_array (map Number [1, 2, 3, 4, 5, 6, 7, 8, 9, 10])))) = Inr (Number 220)
   \<and> Array_reduce plus None (map Number [4, 16, 36, 64, 100]) = Inr (Number 220)"
  by (simp add: JsArray_reduce_def JsArray_map_def JsArray_filter_def JsContext_array_def
      JsArray_toArray_def JsArray_sum_def Array_filter_def Array_map_def is_even_def square_def
      plus_def js_add_def js_mul_def js_rem_def)

section \<open>Simulated calls\<close>

lemma history_session_addToHistory:
  "r < length (objects w) \<Longrightarrow>
   history (objects (session_addToHistory r now op res w) ! r)
     = history (objects w ! r) @ [\<lparr>timestamp = now, operation = op, result = res\<rparr>]"
  by (simp add: session_addToHistory_def WormSession_addToHistory_def)

text \<open>
  C4, as amended. A call of a C++ placeholder function returns, without throwing, the
  string \<open>C++ <name> result\<close>. \<open>PythonContext.execute\<close> without \<open>python-shell\<close>
  returns, without throwing, the array holding \<open>Simulated Python result\<close>, and leaves
  the sessions as they are; a \<open>PythonFunction.call\<close> that goes through it returns that
  value and appends exactly one record, labelled \<open>python.<name>(<args>)\<close>, to the
  history of its session.
\<close>

theorem simulated_calls:
  "(nativeFunc f = None \<longrightarrow>
      fst (CppFunction_call toString now f args w) = Inr (Str (''C++ '' @ cpp_name f @ '' result'')))
   \<and> PythonContext_execute None code w = (Inr (Arr [Str ''Simulated Python result'']), w)
   \<and> fst (PythonFunction_call stringify None now g args w)
        = Inr (Arr [Str ''Simulated Python result''])
   \<and> (py_session g < length (objects w) \<longrightarrow>
        history (objects (snd (PythonFunction_call stringify None now g args w)) ! py_session g)
          = history (objects w ! py_session g)
            @ [\<lparr>timestamp = now,
                operation = ''python.'' @ py_name g @ ''('' @ argsCode stringify args @ '')'',
                result = Arr [Str ''Simulated Python result'']\<rparr>]
        \<and> length (history (objects (snd (PythonFunction_call stringify None now g args w))
              ! py_session g))
            = length (history (objects w ! py_session g)) + 1)"
  by (auto simp: CppFunction_call_def PythonContext_execute_def PythonFunction_call_def Let_def
      history_session_addToHistory)

text \<open>
  C4 as stated fails: the C++ placeholder call and the simulated \<open>execute\<close> append no
  record to the history of their session.
\<close>

theorem simulated_calls_without_record:
  "fst (CppFunction_call (\<lambda>v. ''16'') 1700000000000
      \<lparr>cpp_name = ''testFunc'', cpp_signature = ''double'', nativeFunc = None, cpp_session = 0\<rparr>
      [Prim (Number 16)] (snd (WormCore_createSession ''cpp_test'' WormCore_new)))
     = Inr (Str ''C++ testFunc result'')
   \<and> history (objects (snd (CppFunction_call (\<lambda>v. ''16'') 1700000000000
      \<lparr>cpp_name = ''testFunc'', cpp_signature = ''double'', nativeFunc = None, cpp_session = 0\<rparr>
      [Prim (Number 16)] (snd (WormCore_createSession ''cpp_test'' WormCore_new)))) ! 0) = []
   \<and> fst (PythonContext_execute None ''print(1)''
        (snd (WormCore_createSession ''python_test'' WormCore_new)))
     = Inr (Arr [Str ''Simulated Python result''])
   \<and> history (objects (snd (PythonContext_execute None ''print(1)''
        (snd (WormCore_createSession ''python_test'' WormCore_new)))) ! 0) = []"
  by (simp add: CppFunction_call_def PythonContext_execute_def WormCore_createSession_def
      WormCore_new_def WormSession_new_def Let_def)

theorem simulated_calls_witness:
  "nativeFunc \<lparr>cpp_name = ''testFunc'', cpp_signature = ''double'', nativeFunc = None,
       cpp_session = 0\<rparr> = None
   \<and> fst (CppFunction_call (\<lambda>v. ''16'') 1700000000000
      \<lparr>cpp_name = ''testFunc'', cpp_signature = ''double'', nativeFunc = None, cpp_session = 0\<rparr>
      [Prim (Number 16)] (snd (WormCore_createSession ''test'' WormCore_new)))
     = Inr (Str ''C++ testFunc result'')
   \<and> py_session \<lparr>py_code = ''def f(x): return x'', py_name = ''f'', py_session = 0\<rparr>
       < length (objects (snd (WormCore_createSession ''test'' WormCore_new)))
   \<and> length (history (objects (snd (PythonFunction_call (\<lambda>v. ''16'') None 1700000000000
        \<lparr>py_code = ''def f(x): return x'', py_name = ''f'', py_session = 0\<rparr>
        [Prim (Number 16)] (snd (WormCore_createSession ''test'' WormCore_new)))) ! 0)) = 1"
  using simulated_calls [of
      "\<lparr>cpp_name = ''testFunc'', cpp_signature = ''double'', nativeFunc = None, cpp_session = 0\<rparr>"
      "\<lambda>v. ''16''" 1700000000000 "[Prim (Number 16)]"
      "snd (WormCore_createSession ''test'' WormCore_new)" "''print(1)''" "\<lambda>v. ''16''"
      "\<lparr>py_code = ''def f(x): return x'', py_name = ''f'', py_session = 0\<rparr>"]
  by (simp add: WormCore_createSession_def WormCore_new_def WormSession_new_def Let_def)

section \<open>Base64\<close>

lemma div_split: "q < m \<Longrightarrow> (a * m + q) div m = a" for a m q :: nat
  by simp

lemma mod_split: "q < m \<Longrightarrow> (a * m + q) mod m = q" for a m q :: nat
  by simp

lemma sextet_bounds:
  fixes x y :: nat
  assumes "x < 256" "y < 256"
  shows "x div 4 < 64" "x mod 4 * 16 + y div 16 < 64" "x mod 16 * 4 + y div 64 < 64"
    "x mod 64 < 64" "x mod 4 * 16 < 64" "x mod 16 * 4 < 64"
proof -
  have a: "x mod 4 < 4" "x mod 16 < 16" by simp_all
  have b: "y div 16 < 16" "y div 64 < 4" using assms(2) by (simp_all add: div_less_iff_less_mult)
  show "x div 4 < 64" using assms(1) by (simp add: div_less_iff_less_mult)
  show "x mod 4 * 16 + y div 16 < 64" using a(1) b(1) by linarith
  show "x mod 16 * 4 + y div 64 < 64" using a(2) b(2) by linarith
  show "x mod 64 < 64" by simp
  show "x mod 4 * 16 < 64" using a(1) by linarith
  show "x mod 16 * 4 < 64" using a(2) by linarith
qed

lemma first_byte:
  fixes x y :: nat
  assumes "y < 256"
  shows "x div 4 * 4 + (x mod 4 * 16 + y div 16) div 16 = x"
proof -
  have "y div 16 < 16" using assms by (simp add: div_less_iff_less_mult)
  then have "(x mod 4 * 16 + y div 16) div 16 = x mod 4" by (rule div_split)
  then show ?thesis by simp
qed

lemma first_byte_padded: "x div 4 * 4 + (x mod 4 * 16) div 16 = x" for x :: nat
  by simp

lemma second_byte:
  fixes y z :: nat
  assumes "y < 256" "z < 256"
  shows "(x mod 4 * 16 + y div 16) mod 16 * 16 + (y mod 16 * 4 + z div 64) div 4 = y"
proof -
  have "y div 16 < 16" using assms by (simp add: div_less_iff_less_mult)
  then have 1: "(x mod 4 * 16 + y div 16) mod 16 = y div 16" by (rule mod_split)
  have "z div 64 < 4" using assms by (simp add: div_less_iff_less_mult)
  then have 2: "(y mod 16 * 4 + z div 64) div 4 = y mod 16" by (rule div_split)
  show ?thesis unfolding 1 2 by simp
qed

lemma second_byte_padded:
  fixes y :: nat
  assumes "y < 256"
  shows "(x mod 4 * 16 + y div 16) mod 16 * 16 + (y mod 16 * 4) div 4 = y"
proof -
  have "y div 16 < 16" using assms by (simp add: div_less_iff_less_mult)
  then have 1: "(x mod 4 * 16 + y div 16) mod 16 = y div 16" by (rule mod_split)
  show ?thesis unfolding 1 by simp
qed

lemma third_byte:
  fixes z :: nat
  assumes "z < 256"
  shows "(y mod 16 * 4 + z div 64) mod 4 * 64 + z mod 64 = z"
proof -
  have "z div 64 < 4" using assms by (simp add: div_less_iff_less_mult)
  then have 1: "(y mod 16 * 4 + z div 64) mod 4 = z div 64" by (rule mod_split)
  show ?thesis unfolding 1 by simp
qed

lemma base64_alphabet_values:
  "list_all (\<lambda>n. base64_value (base64_char n) = Some n \<and> base64_char n \<noteq> CHR ''='') [0..<64]"
  by code_simp

lemma base64_value_char:
  assumes "n < 64"
  shows "base64_value (base64_char n) = Some n" and "base64_char n \<noteq> CHR ''=''"
  using assms base64_alphabet_values by (auto simp: list_all_iff)

lemma sextets_char: "n < 64 \<Longrightarrow> sextets (base64_char n # cs) = n # sextets cs"
  by (simp add: base64_value_char)

lemma sextets_pad: "sextets (CHR ''='' # cs) = []"
  by simp

lemma unat_byte: "unat a < 256" for a :: byte
  using unsigned_less [of a] by simp

lemma of_nat_unat_byte: "of_nat (unat a) = a" for a :: byte
  by simp

lemma group_of_three:
  "sextets_to_bytes (unat a div 4 # (unat a mod 4 * 16 + unat b div 16)
      # (unat b mod 16 * 4 + unat c div 64) # unat c mod 64 # rest)
     = a # b # c # sextets_to_bytes rest" for a b c :: byte
  by (simp only: sextets_to_bytes.simps first_byte [OF unat_byte]
      second_byte [OF unat_byte unat_byte] third_byte [OF unat_byte] of_nat_unat_byte
      append.simps)

lemma group_of_two:
  "sextets_to_bytes [unat a div 4, unat a mod 4 * 16 + unat b div 16, unat b mod 16 * 4]
     = [a, b]" for a b :: byte
  by (simp only: sextets_to_bytes.simps first_byte [OF unat_byte]
      second_byte_padded [OF unat_byte] of_nat_unat_byte)

lemma group_of_one:
  "sextets_to_bytes [unat a div 4, unat a mod 4 * 16] = [a]" for a :: byte
  by (simp only: sextets_to_bytes.simps first_byte_padded of_nat_unat_byte)

lemma base64_roundtrip: "base64_decode (base64_encode bs) = bs"
  unfolding base64_decode_def
proof (induction bs rule: base64_encode.induct)
  case 1
  show ?case by simp
next
  case (2 a)
  note b = sextet_bounds [OF unat_byte [of a] unat_byte [of a]]
  show ?case
    by (simp only: base64_encode.simps sextets_char b sextets_pad group_of_one)
next
  case (3 a b)
  note ba = sextet_bounds [OF unat_byte [of a] unat_byte [of b]]
  note bb = sextet_bounds [OF unat_byte [of b] unat_byte [of b]]
  show ?case
    by (simp only: base64_encode.simps sextets_char ba bb sextets_pad group_of_two)
next
  case (4 a b c rest)
  note ba = sextet_bounds [OF unat_byte [of a] unat_byte [of b]]
  note bb = sextet_bounds [OF unat_byte [of b] unat_byte [of c]]
  note bc = sextet_bounds [OF unat_byte [of c] unat_byte [of c]]
  show ?case
    using "4.IH"
    by (simp only: base64_encode.simps append.simps sextets_char ba bb bc group_of_three)
qed


section \<open>The container store: access\<close>

lemmas class_methods =
  WormContainer_load_def WormContainer_read_def WormContainer_write_def
  WormContainer_exists_def WormContainer_remove_def WormSimpleContainer_load_def
  WormSimpleContainer_read_def WormSimpleContainer_write_def WormSimpleContainer_exists_def
  WormSimpleContainer_remove_def

lemma load_loaded: "isLoaded c \<Longrightarrow> container_load P h c = Some c"
  by (simp add: container_load_def)

lemma load_Some:
  assumes "container_load P h c = Some c'"
  shows "isLoaded c'"
    and "c' = (if isLoaded c then c else (snd (load_try P h c))\<lparr>isLoaded := True\<rparr>)"
proof -
  obtain s d where st: "load_try P h c = (s, d)" by (cases "load_try P h c")
  from assms st show "isLoaded c'"
    by (cases s) (auto simp: container_load_def split: if_splits)
  from assms st show "c' = (if isLoaded c then c else (snd (load_try P h c))\<lparr>isLoaded := True\<rparr>)"
    by (cases s) (auto simp: container_load_def split: if_splits)
qed

lemma load_None:
  "container_load P h c = None \<longleftrightarrow>
     \<not> isLoaded c \<and> (\<exists>e. fst (load_try P h c) = Uncaught e)"
proof -
  obtain s d where st: "load_try P h c = (s, d)" by (cases "load_try P h c")
  show ?thesis
    by (cases s) (simp_all add: container_load_def st)
qed

lemma simple_load_try:
  "fst (load_try WormSimpleContainer_parseContainerData h c) = Resolved
   \<or> fst (load_try WormSimpleContainer_parseContainerData h c) = Rejected ReadFailure"
proof -
  have e: "fst (loadEmbeddedContainer WormSimpleContainer_parseContainerData h c) = Resolved"
    by (cases "embedded_container h")
      (simp_all add: loadEmbeddedContainer_def WormSimpleContainer_parseContainerData_def)
  have f: "fst (loadContainerFile WormSimpleContainer_parseContainerData h c) = Resolved
      \<or> fst (loadContainerFile WormSimpleContainer_parseContainerData h c) = Rejected ReadFailure"
    by (cases "fs h (containerPath c)")
      (simp_all add: loadContainerFile_def WormSimpleContainer_parseContainerData_def)
  from e f show ?thesis by (simp add: load_try_def)
qed

lemma simple_load_returns: "container_load WormSimpleContainer_parseContainerData h c \<noteq> None"
  using simple_load_try [of h c] by (auto simp: load_None)











lemma read_entries_keeps:
  "\<forall>e \<in> set es. delivers e \<Longrightarrow> map_of (memoryFs c) p \<noteq> None \<Longrightarrow>
   fst (read_entries es c) = Resolved \<and> map_of (memoryFs (snd (read_entries es c))) p \<noteq> None"
proof (induction es c rule: read_entries.induct)
  case (1 c)
  then show ?case by simp
next
  case (2 es c)
  then show ?case by simp
next
  case (3 fileName stream es c)
  from "3.prems"(1) obtain buffer where s: "stream = Delivers buffer"
    by (cases stream) auto
  show ?case
  proof (cases "ends_with_slash fileName")
    case True
    with 3 show ?thesis by simp
  next
    case False
    have "map_of (memoryFs (c\<lparr>memoryFs := Map_set fileName buffer (memoryFs c)\<rparr>)) p \<noteq> None"
      using "3.prems"(2) by (simp add: Map_set_def update_conv')
    with "3.IH"(2) [OF False s] "3.prems"(1) False s show ?thesis by simp
  qed
qed

lemma read_entries_has:
  "\<forall>e \<in> set es. delivers e \<Longrightarrow> ZipEntry p (Delivers b) \<in> set es \<Longrightarrow> \<not> ends_with_slash p \<Longrightarrow>
   fst (read_entries es c) = Resolved \<and> map_of (memoryFs (snd (read_entries es c))) p \<noteq> None"
proof (induction es c rule: read_entries.induct)
  case (1 c)
  then show ?case by simp
next
  case (2 es c)
  then show ?case by simp
next
  case (3 fileName stream es c)
  from "3.prems"(1) obtain buffer where s: "stream = Delivers buffer"
    by (cases stream) auto
  from "3.prems"(1) have rest: "\<forall>e \<in> set es. delivers e" by simp
  show ?case
  proof (cases "ZipEntry fileName stream = ZipEntry p (Delivers b)")
    case True
    then have eq: "fileName = p" "buffer = b" using s by simp_all
    have "map_of (memoryFs (c\<lparr>memoryFs := Map_set p b (memoryFs c)\<rparr>)) p \<noteq> None"
      by (simp add: Map_set_def update_conv')
    from read_entries_keeps [OF rest this] "3.prems"(3) show ?thesis
      by (simp add: s eq)
  next
    case False
    with "3.prems"(2) have mem: "ZipEntry p (Delivers b) \<in> set es" by auto
    show ?thesis
    proof (cases "ends_with_slash fileName")
      case True
      with "3.IH"(1) [OF True rest mem "3.prems"(3)] show ?thesis by simp
    next
      case no: False
      with "3.IH"(2) [OF no s rest mem "3.prems"(3)] s show ?thesis by simp
    qed
  qed
qed

lemma load_try_backing:
  "backing h c = File d \<Longrightarrow> load_try P h c = P d c"
  by (auto simp: load_try_def backing_def loadEmbeddedContainer_def loadContainerFile_def
      split: option.splits if_splits)

lemma clear_fields:
  "isLoaded (container_clear c) = isLoaded c"
  "containerPath (container_clear c) = containerPath c"
  "isEmbedded (container_clear c) = isEmbedded c"
  "memoryFs (container_clear c) = []"
  "backing h (container_clear c) = backing h c"
  by (simp_all add: container_clear_def Map_clear_def backing_def)

text \<open>
  C10. \<open>clear()\<close> empties the in-memory map and leaves \<open>isLoaded\<close> and everything else
  alone. On a store that is not yet loaded, file-backed or embedded, whose archive holds
  a file entry at \<open>p\<close>, \<open>clear()\<close> and then \<open>exists(p)\<close> answers true, since that
  access loads the archive; on a store that has been loaded, \<open>exists(p)\<close> after
  \<open>clear()\<close> answers false.
\<close>

theorem clear_before_load:
  assumes "\<not> isLoaded c" and "backing h c = File (ZipArchive es)"
    and "ZipEntry p (Delivers b) \<in> set es" and "\<not> ends_with_slash p"
    and "\<forall>e \<in> set es. delivers e"
  shows "isLoaded (container_clear c) = isLoaded c
    \<and> containerPath (container_clear c) = containerPath c
    \<and> isEmbedded (container_clear c) = isEmbedded c
    \<and> memoryFs (container_clear c) = []
    \<and> map_option fst (WormContainer_exists h p (container_clear c)) = Some True
    \<and> (isLoaded c' \<longrightarrow>
         WormContainer_exists h' p (container_clear c') = Some (False, container_clear c'))"
proof -
  have tr: "load_try WormContainer_parseContainerData h (container_clear c)
      = read_entries es (container_clear c)"
    using assms(2)
    by (simp add: load_try_backing [of h "container_clear c" "ZipArchive es"] clear_fields
        WormContainer_parseContainerData_def)
  obtain s d where r: "read_entries es (container_clear c) = (s, d)"
    by (cases "read_entries es (container_clear c)")
  from read_entries_has [OF assms(5) assms(3) assms(4), of "container_clear c"] r
  have s: "s = Resolved" and d: "map_of (memoryFs d) p \<noteq> None" by simp_all
  have "container_load WormContainer_parseContainerData h (container_clear c)
      = Some (d\<lparr>isLoaded := True\<rparr>)"
    using assms(1) by (simp add: container_load_def clear_fields tr r s)
  then have 1: "map_option fst (WormContainer_exists h p (container_clear c)) = Some True"
    using d by (simp add: class_methods container_exists_def Map_has_def)
  have 2: "isLoaded c' \<Longrightarrow>
      WormContainer_exists h' p (container_clear c') = Some (False, container_clear c')"
    by (simp add: class_methods container_exists_def load_loaded clear_fields Map_has_def)
  from 1 2 show ?thesis by (simp add: clear_fields)
qed

theorem clear_before_load_witness:
  "\<not> isLoaded (container_new ''container.worm'' True)
   \<and> backing \<lparr>embedded_container = Some (ZipArchive [ZipEntry ''docs/'' (Delivers []),
                  ZipEntry ''docs/a.txt'' (Delivers [104, 105])]),
               fs = (\<lambda>p. Missing)\<rparr> (container_new ''container.worm'' True)
       = File (ZipArchive [ZipEntry ''docs/'' (Delivers []),
                  ZipEntry ''docs/a.txt'' (Delivers [104, 105])])
   \<and> ZipEntry ''docs/a.txt'' (Delivers [104, 105])
        \<in> set [ZipEntry ''docs/'' (Delivers []), ZipEntry ''docs/a.txt'' (Delivers [104, 105])]
   \<and> \<not> ends_with_slash ''docs/a.txt''
   \<and> list_all delivers
        [ZipEntry ''docs/'' (Delivers []), ZipEntry ''docs/a.txt'' (Delivers [104, 105])]
   \<and> map_option fst (WormContainer_exists
        \<lparr>embedded_container = Some (ZipArchive [ZipEntry ''docs/'' (Delivers []),
                  ZipEntry ''docs/a.txt'' (Delivers [104, 105])]),
          fs = (\<lambda>p. Missing)\<rparr>
        ''docs/a.txt'' (container_clear (container_new ''container.worm'' True))) = Some True
   \<and> backing \<lparr>embedded_container = None,
               fs = (\<lambda>p. if p = ''container.worm''
                          then File (ZipArchive [ZipEntry ''docs/a.txt'' (Delivers [104, 105])])
                          else Missing)\<rparr> (container_new ''container.worm'' False)
       = File (ZipArchive [ZipEntry ''docs/a.txt'' (Delivers [104, 105])])
   \<and> map_option fst (WormContainer_exists
        \<lparr>embedded_container = None,
          fs = (\<lambda>p. if p = ''container.worm''
                     then File (ZipArchive [ZipEntry ''docs/a.txt'' (Delivers [104, 105])])
                     else Missing)\<rparr>
        ''docs/a.txt'' (container_clear (container_new ''container.worm'' False))) = Some True
   \<and> isLoaded \<lparr>containerPath = ''container.worm'', memoryFs = [(''docs/a.txt'', [104, 105])],
                 isLoaded = True, isEmbedded = True\<rparr>
   \<and> WormContainer_exists
        \<lparr>embedded_container = Some (ZipArchive [ZipEntry ''docs/'' (Delivers []),
                  ZipEntry ''docs/a.txt'' (Delivers [104, 105])]),
          fs = (\<lambda>p. Missing)\<rparr>
        ''docs/a.txt''
        (container_clear \<lparr>containerPath = ''container.worm'',
           memoryFs = [(''docs/a.txt'', [104, 105])], isLoaded = True, isEmbedded = True\<rparr>)
       = Some (False, \<lparr>containerPath = ''container.worm'', memoryFs = [],
                         isLoaded = True, isEmbedded = True\<rparr>)"
  using clear_before_load [where c = "container_new ''container.worm'' True"
      and h = "\<lparr>embedded_container = Some (ZipArchive [ZipEntry ''docs/'' (Delivers []),
                  ZipEntry ''docs/a.txt'' (Delivers [104, 105])]),
               fs = (\<lambda>p. Missing)\<rparr>"
      and es = "[ZipEntry ''docs/'' (Delivers []), ZipEntry ''docs/a.txt'' (Delivers [104, 105])]"
      and p = "''docs/a.txt''" and b = "[104, 105]"
      and c' = "\<lparr>containerPath = ''container.worm'',
           memoryFs = [(''docs/a.txt'', [104, 105])], isLoaded = True, isEmbedded = True\<rparr>"
      and h' = "\<lparr>embedded_container = Some (ZipArchive [ZipEntry ''docs/'' (Delivers []),
                  ZipEntry ''docs/a.txt'' (Delivers [104, 105])]),
               fs = (\<lambda>p. Missing)\<rparr>"]
    clear_before_load [where c = "container_new ''container.worm'' False"
      and h = "\<lparr>embedded_container = None,
               fs = (\<lambda>p. if p = ''container.worm''
                          then File (ZipArchive [ZipEntry ''docs/a.txt'' (Delivers [104, 105])])
                          else Missing)\<rparr>"
      and es = "[ZipEntry ''docs/a.txt'' (Delivers [104, 105])]"
      and p = "''docs/a.txt''" and b = "[104, 105]"]
  by (simp add: container_new_def backing_def ends_with_slash_def container_clear_def
      Map_clear_def)


section \<open>The container store: loading\<close>

lemma load_absent:
  assumes "\<not> isLoaded c" and "absent_or_undecodable accepts (backing h c)"
    and "\<And>d. \<not> accepts d \<Longrightarrow> \<exists>e. P d c = (Rejected e, c) \<or> P d c = (Resolved, c)"
  shows "container_load P h c = Some (c\<lparr>isLoaded := True\<rparr>)"
proof (cases "backing h c")
  case Missing
  then have "load_try P h c = (Resolved, c)"
    by (auto simp: load_try_def backing_def loadEmbeddedContainer_def loadContainerFile_def
        split: option.splits if_splits)
  with assms(1) show ?thesis by (simp add: container_load_def)
next
  case Unreadable
  then have "load_try P h c = (Rejected ReadFailure, c)"
    by (auto simp: load_try_def backing_def loadEmbeddedContainer_def loadContainerFile_def
        split: option.splits if_splits)
  with assms(1) show ?thesis by (simp add: container_load_def)
next
  case (File d)
  with assms(2) have "\<not> accepts d"
    by (simp add: absent_or_undecodable_def)
  with assms(3) obtain e where "P d c = (Rejected e, c) \<or> P d c = (Resolved, c)" by blast
  with assms(1) load_try_backing [OF File, of P] show ?thesis
    by (auto simp: container_load_def)
qed

lemma zip_rejects:
  "\<not> is_zip d \<Longrightarrow> WormContainer_parseContainerData d c = (Rejected ZipFailure, c)"
  by (cases d) (simp_all add: WormContainer_parseContainerData_def)

lemma simple_rejects:
  "\<not> is_gzip_json d \<Longrightarrow> WormSimpleContainer_parseContainerData d c = (Resolved, c)"
  by (cases d) (simp_all add: WormSimpleContainer_parseContainerData_def simple_parse_try_def)

text \<open>
  What holds of \<open>load\<close>: it is idempotent; when it returns, the store is marked loaded;
  the simple store's \<open>load\<close> always returns, the zip store's \<open>load\<close> returns unless
  an error event is thrown; and an archive that is absent, unreadable or rejected as a
  whole leaves the map as it was.
\<close>

lemma load_fail_open:
  "(isLoaded c \<longrightarrow> WormContainer_load h c = Some c \<and> WormSimpleContainer_load h c = Some c)
   \<and> (WormContainer_load h c = Some c' \<longrightarrow> isLoaded c')
   \<and> (WormSimpleContainer_load h c = Some c' \<longrightarrow> isLoaded c')
   \<and> WormSimpleContainer_load h c \<noteq> None
   \<and> (WormContainer_load h c = None \<longleftrightarrow>
        \<not> isLoaded c \<and> (\<exists>e. fst (load_try WormContainer_parseContainerData h c) = Uncaught e))
   \<and> (\<not> isLoaded c \<and> absent_or_undecodable is_zip (backing h c) \<longrightarrow>
        WormContainer_load h c = Some (c\<lparr>isLoaded := True\<rparr>))
   \<and> (\<not> isLoaded c \<and> absent_or_undecodable is_gzip_json (backing h c) \<longrightarrow>
        WormSimpleContainer_load h c = Some (c\<lparr>isLoaded := True\<rparr>))"
proof -
  have z: "\<not> isLoaded c \<Longrightarrow> absent_or_undecodable is_zip (backing h c) \<Longrightarrow>
      container_load WormContainer_parseContainerData h c = Some (c\<lparr>isLoaded := True\<rparr>)"
    by (rule load_absent [where accepts = is_zip]) (simp_all add: zip_rejects)
  have g: "\<not> isLoaded c \<Longrightarrow> absent_or_undecodable is_gzip_json (backing h c) \<Longrightarrow>
      container_load WormSimpleContainer_parseContainerData h c = Some (c\<lparr>isLoaded := True\<rparr>)"
    by (rule load_absent [where accepts = is_gzip_json]) (simp_all add: simple_rejects)
  show ?thesis
    using z g load_Some(1) [of WormContainer_parseContainerData h c c']
      load_Some(1) [of WormSimpleContainer_parseContainerData h c c']
      load_None [of WormContainer_parseContainerData h c]
    by (simp add: class_methods load_loaded simple_load_returns)
qed

text \<open>
  When decoding fails part-way with an error that \<open>load\<close> does catch, the entries read
  before the failure stay in the loaded store.
\<close>

lemma load_corrupt_keeps_entries:
  "fst (simple_parse_try
          (GzipJson \<lparr>version = ''1.0'', created = ''2024-01-01T00:00:00.000Z'',
                     files = [(''a'', JsonString ''aGk=''), (''b'', NotAString)]\<rparr>)
          (container_new ''container.worm'' False)) = Some TypeError
   \<and> map_option memoryFs (WormSimpleContainer_load
        \<lparr>embedded_container = None,
         fs = (\<lambda>p. File (GzipJson \<lparr>version = ''1.0'', created = ''2024-01-01T00:00:00.000Z'',
                     files = [(''a'', JsonString ''aGk=''), (''b'', NotAString)]\<rparr>))\<rparr>
        (container_new ''container.worm'' False)) = Some [(''a'', [104, 105])]
   \<and> fst (WormContainer_parseContainerData
          (ZipArchive [ZipEntry ''a'' (Delivers [104, 105]), ZipEntry ''b'' OpenFails])
          (container_new ''container.worm'' False)) = Rejected ZipFailure
   \<and> map_option memoryFs (WormContainer_load
        \<lparr>embedded_container = None,
         fs = (\<lambda>p. File (ZipArchive [ZipEntry ''a'' (Delivers [104, 105]),
                                      ZipEntry ''b'' OpenFails]))\<rparr>
        (container_new ''container.worm'' False)) = Some [(''a'', [104, 105])]"
  by code_simp

text \<open>
  C3. \<open>load()\<close> of the zip store is not fail-open on every corrupt archive: on a zip
  that \<open>yauzl\<close> opens and that then reports an error as an event (on the zipfile, or
  on the read stream of an entry), \<open>load()\<close> never returns, the store stays unloaded
  with the entries read so far, and every access that awaits it never returns either.
\<close>

theorem load_never_settles:
  "WormContainer_load
      \<lparr>embedded_container = None,
        fs = (\<lambda>p. File (ZipArchive [ZipEntry ''a'' (Delivers [104, 105]),
                                     ZipEntry ''b'' StreamError]))\<rparr>
      (container_new ''container.worm'' False) = None
   \<and> load_try WormContainer_parseContainerData
      \<lparr>embedded_container = None,
        fs = (\<lambda>p. File (ZipArchive [ZipEntry ''a'' (Delivers [104, 105]),
                                     ZipEntry ''b'' StreamError]))\<rparr>
      (container_new ''container.worm'' False)
     = (Uncaught ZipFailure,
        \<lparr>containerPath = ''container.worm'', memoryFs = [(''a'', [104, 105])],
          isLoaded = False, isEmbedded = False\<rparr>)
   \<and> WormContainer_load
      \<lparr>embedded_container = None, fs = (\<lambda>p. File (ZipArchive [ZipError]))\<rparr>
      (container_new ''container.worm'' False) = None
   \<and> load_try WormContainer_parseContainerData
      \<lparr>embedded_container = None, fs = (\<lambda>p. File (ZipArchive [ZipError]))\<rparr>
      (container_new ''container.worm'' False)
     = (Uncaught ZipFailure, container_new ''container.worm'' False)
   \<and> WormContainer_exists
      \<lparr>embedded_container = None, fs = (\<lambda>p. File (ZipArchive [ZipError]))\<rparr> ''a''
      (container_new ''container.worm'' False) = None"
  by code_simp

section \<open>The simple format: save and load\<close>

lemma map_of_insert_index_key:
  "map_of obj k = None \<Longrightarrow> map_of (insert_index_key i k v obj) = (map_of obj)(k \<mapsto> v)"
proof (induction obj)
  case Nil
  show ?case by simp
next
  case (Cons e obj)
  obtain k' v' where e: "e = (k', v')" by (cases e)
  from Cons.prems e have ne: "k' \<noteq> k" and rest: "map_of obj k = None"
    by (auto split: if_splits)
  show ?case
    using ne Cons.IH [OF rest] by (auto simp: e split: option.splits)
qed

lemma keys_insert_index_key:
  "set (map fst (insert_index_key i k v obj)) = insert k (set (map fst obj))"
proof (induction obj)
  case Nil
  show ?case by simp
next
  case (Cons e obj)
  obtain k' v' where e: "e = (k', v')" by (cases e)
  show ?case
  proof (cases "array_index k'")
    case None
    then show ?thesis by (simp add: e)
  next
    case (Some j)
    with Cons.IH show ?thesis by (cases "j < i") (simp_all add: e insert_commute)
  qed
qed

lemma distinct_insert_index_key:
  "distinct (map fst obj) \<Longrightarrow> k \<notin> set (map fst obj) \<Longrightarrow>
   distinct (map fst (insert_index_key i k v obj))"
proof (induction obj)
  case Nil
  show ?case by simp
next
  case (Cons e obj)
  obtain k' v' where e: "e = (k', v')" by (cases e)
  from Cons.prems e have d: "distinct (map fst obj)" and n: "k \<notin> set (map fst obj)"
    and k': "k' \<notin> set (map fst obj)" "k' \<noteq> k"
    by auto
  show ?case
  proof (cases "array_index k'")
    case None
    with Cons.prems show ?thesis by (simp add: e)
  next
    case (Some j)
    show ?thesis
    proof (cases "j < i")
      case True
      with Some Cons.IH [OF d n] k' keys_insert_index_key [of i k v obj] show ?thesis
        by (simp add: e)
    next
      case False
      with Some Cons.prems show ?thesis by (simp add: e)
    qed
  qed
qed

lemma map_of_snoc: "map_of obj k = None \<Longrightarrow> map_of (obj @ [(k, v)]) = (map_of obj)(k \<mapsto> v)"
  by (auto simp: map_add_def fun_eq_iff split: option.splits)

lemma map_of_object_set:
  "map_of (object_set k v obj) = (if k = ''__proto__'' then map_of obj else (map_of obj)(k \<mapsto> v))"
  by (auto simp: object_set_def update_conv' map_of_insert_index_key map_of_snoc
      simp del: map_of_append split: option.splits)

lemma distinct_object_set:
  "distinct (map fst obj) \<Longrightarrow> distinct (map fst (object_set k v obj))"
  by (auto simp: object_set_def distinct_update distinct_insert_index_key map_of_eq_None_iff
      split: option.splits)

text \<open>The \<open>files\<close> object that \<open>save\<close> builds.\<close>

lemma files_of_map:
  "distinct (map fst obj) \<Longrightarrow>
   distinct (map fst (foldl (\<lambda>obj (filePath, content).
        object_set filePath (JsonString (base64_encode content)) obj) obj m))
   \<and> map_of (foldl (\<lambda>obj (filePath, content).
        object_set filePath (JsonString (base64_encode content)) obj) obj m) p
     = (if p = ''__proto__'' then map_of obj p
        else (case map_of (rev m) p of
                None \<Rightarrow> map_of obj p
              | Some content \<Rightarrow> Some (JsonString (base64_encode content))))"
proof (induction m arbitrary: obj)
  case Nil
  then show ?case by simp
next
  case (Cons e m)
  obtain k c where e: "e = (k, c)" by (cases e)
  have d: "distinct (map fst (object_set k (JsonString (base64_encode c)) obj))"
    using Cons.prems by (rule distinct_object_set)
  show ?case
    using Cons.IH [OF d]
    by (auto simp: e map_of_object_set map_add_def split: option.splits)
qed

lemma load_files_lookup:
  "distinct (map fst es) \<Longrightarrow> \<forall>e \<in> set es. snd e \<noteq> NotAString \<Longrightarrow>
   fst (load_files es c) = None
   \<and> isLoaded (snd (load_files es c)) = isLoaded c
   \<and> map_of (memoryFs (snd (load_files es c))) p
     = (case map_of es p of
          None \<Rightarrow> map_of (memoryFs c) p
        | Some NotAString \<Rightarrow> None
        | Some (JsonString s) \<Rightarrow> Some (base64_decode s))"
proof (induction es arbitrary: c)
  case Nil
  show ?case by simp
next
  case (Cons e es)
  obtain k v where e: "e = (k, v)" by (cases e)
  from Cons.prems e obtain s where v: "v = JsonString s" by (cases v) auto
  from Cons.prems e have k: "map_of es k = None"
    by (auto simp: map_of_eq_None_iff)
  from Cons.prems have "distinct (map fst es)" "\<forall>e \<in> set es. snd e \<noteq> NotAString" by auto
  from Cons.IH [OF this, of "c\<lparr>memoryFs := Map_set k (base64_decode s) (memoryFs c)\<rparr>"] k
  show ?case
    by (auto simp: e v Map_set_def update_conv' split: option.splits file_value.splits)
qed

lemma map_of_rev_distinct: "distinct (map fst xs) \<Longrightarrow> map_of (rev xs) k = map_of xs k"
proof (induction xs)
  case Nil
  show ?case by simp
next
  case (Cons x xs)
  obtain a b where x: "x = (a, b)" by (cases x)
  from Cons.prems x have "map_of xs a = None"
    by (simp add: map_of_eq_None_iff)
  with Cons show ?case
    by (simp add: x map_add_def split: option.splits)
qed

lemma files_of_lookup:
  assumes "distinct (map fst m)"
  shows "distinct (map fst (files_of m))"
    and "map_of (files_of m) q = (if q = ''__proto__'' then None
        else (case map_of m q of
                None \<Rightarrow> None
              | Some content \<Rightarrow> Some (JsonString (base64_encode content))))"
proof -
  show "distinct (map fst (files_of m))"
    using files_of_map [of "[]" m] by (simp add: files_of_def)
  have "map_of (files_of m) q = (if q = ''__proto__'' then map_of [] q
        else (case map_of (rev m) q of
                None \<Rightarrow> map_of [] q
              | Some content \<Rightarrow> Some (JsonString (base64_encode content))))"
    unfolding files_of_def using files_of_map [of "[]" m q] by simp
  then show "map_of (files_of m) q = (if q = ''__proto__'' then None
        else (case map_of m q of
                None \<Rightarrow> None
              | Some content \<Rightarrow> Some (JsonString (base64_encode content))))"
    by (simp add: map_of_rev_distinct [OF assms] split: option.splits)
qed

lemma files_of_strings:
  assumes "distinct (map fst m)" and "e \<in> set (files_of m)"
  shows "snd e \<noteq> NotAString"
proof -
  from assms(2) files_of_lookup(1) [OF assms(1)]
  have "map_of (files_of m) (fst e) = Some (snd e)"
    using map_of_is_SomeI [of "files_of m" "fst e" "snd e"] by simp
  then show ?thesis
    unfolding files_of_lookup(2) [OF assms(1)]
    by (auto split: if_splits option.splits)
qed


lemma load_files_distinct:
  "distinct (map fst (memoryFs c)) \<Longrightarrow> distinct (map fst (memoryFs (snd (load_files es c))))"
proof (induction es arbitrary: c)
  case Nil
  then show ?case by simp
next
  case (Cons e es)
  obtain k v where e: "e = (k, v)" by (cases e)
  show ?case
  proof (cases v)
    case (JsonString s)
    have "distinct (map fst (memoryFs (c\<lparr>memoryFs := Map_set k (base64_decode s) (memoryFs c)\<rparr>)))"
      using Cons.prems by (simp add: Map_set_def distinct_update)
    from Cons.IH [OF this] show ?thesis
      by (simp add: e JsonString)
  next
    case NotAString
    with Cons.prems show ?thesis by (simp add: e)
  qed
qed

lemma load_files_fields:
  "containerPath (snd (load_files es c)) = containerPath c
   \<and> isEmbedded (snd (load_files es c)) = isEmbedded c"
proof (induction es arbitrary: c)
  case Nil
  show ?case by simp
next
  case (Cons e es)
  obtain k v where e: "e = (k, v)" by (cases e)
  show ?case
  proof (cases v)
    case (JsonString s)
    show ?thesis
      using Cons.IH [of "c\<lparr>memoryFs := Map_set k (base64_decode s) (memoryFs c)\<rparr>"]
      by (simp add: e JsonString)
  next
    case NotAString
    then show ?thesis by (simp add: e)
  qed
qed

text \<open>The simple store's \<open>load\<close>, which always returns, spelled out.\<close>

lemma simple_load_try_snd:
  "snd (load_try WormSimpleContainer_parseContainerData h c)
     = (case backing h c of
          File (GzipJson doc) \<Rightarrow> snd (load_files (files doc) c)
        | _ \<Rightarrow> c)"
proof (cases "backing h c")
  case (File d)
  show ?thesis
    by (cases d) (simp_all add: File load_try_backing [OF File]
        WormSimpleContainer_parseContainerData_def simple_parse_try_def)
qed (auto simp: load_try_def backing_def loadEmbeddedContainer_def loadContainerFile_def
    split: option.splits if_splits)

lemma simple_load_eq:
  "WormSimpleContainer_load h c
     = Some (if isLoaded c then c
             else (snd (load_try WormSimpleContainer_parseContainerData h c))\<lparr>isLoaded := True\<rparr>)"
proof -
  from simple_load_returns [of h c] obtain c'
    where c': "container_load WormSimpleContainer_parseContainerData h c = Some c'"
    by blast
  from load_Some(2) [OF c'] c' show ?thesis
    by (simp add: WormSimpleContainer_load_def)
qed

lemma simple_load_fields:
  assumes "WormSimpleContainer_load h c = Some c'"
  shows "containerPath c' = containerPath c" and "isEmbedded c' = isEmbedded c"
  using assms unfolding simple_load_eq simple_load_try_snd
  by (auto simp: load_files_fields split: fs_node.splits blob.splits if_splits)

lemma simple_load_distinct:
  assumes "WormSimpleContainer_load h c = Some c'" and "distinct (map fst (memoryFs c))"
  shows "distinct (map fst (memoryFs c'))"
  using assms unfolding simple_load_eq simple_load_try_snd
  by (auto simp: load_files_distinct split: fs_node.splits blob.splits if_splits)

lemma save_eq:
  assumes "WormSimpleContainer_load h c = Some c'"
  shows "WormSimpleContainer_save now None h c
     = Some (h\<lparr>fs := (fs h)(containerPath c :=
           File (GzipJson \<lparr>version = ''1.0'', created = now,
                            files = files_of (memoryFs c')\<rparr>))\<rparr>, c')"
  using assms simple_load_fields(1) [OF assms]
  by (simp add: WormSimpleContainer_save_def Let_def)

lemma fresh_load_of_saved:
  "WormSimpleContainer_load (h\<lparr>fs := (fs h)(P := File (GzipJson doc))\<rparr>) (container_new P False)
     = Some ((snd (load_files (files doc) (container_new P False)))\<lparr>isLoaded := True\<rparr>)"
  unfolding simple_load_eq simple_load_try_snd
  by (simp add: container_new_def backing_def)

lemma save_load_lookup:
  assumes "\<not> isEmbedded c"
    and "WormSimpleContainer_save now None h c = Some (h', c')"
    and "distinct (map fst (memoryFs c'))"
  shows "\<exists>c''. WormSimpleContainer_load h' (container_new (containerPath c) False) = Some c''
           \<and> (\<forall>p. map_of (memoryFs c'') p
                 = (if p = ''__proto__'' then None else map_of (memoryFs c') p))"
proof -
  define m where "m = memoryFs c'"
  define c'' where
    "c'' = (snd (load_files (files_of m) (container_new (containerPath c) False)))\<lparr>isLoaded := True\<rparr>"
  from assms(2) have l: "WormSimpleContainer_load h c = Some c'"
    by (auto simp: WormSimpleContainer_save_def Let_def split: option.splits)
  from assms(2) have h': "h' = h\<lparr>fs := (fs h)(containerPath c :=
           File (GzipJson \<lparr>version = ''1.0'', created = now, files = files_of m\<rparr>))\<rparr>"
    unfolding save_eq [OF l] m_def by simp
  have dm: "distinct (map fst m)"
    using assms(3) by (simp add: m_def)
  have strings: "\<forall>e \<in> set (files_of m). snd e \<noteq> NotAString"
    using files_of_strings [OF dm] by blast
  have 1: "WormSimpleContainer_load h' (container_new (containerPath c) False) = Some c''"
    unfolding h' c''_def by (simp only: fresh_load_of_saved) simp
  have "map_of (memoryFs c'') p = (if p = ''__proto__'' then None else map_of m p)" for p
  proof -
    have 2: "map_of (memoryFs c'') p
        = (case map_of (files_of m) p of
             None \<Rightarrow> map_of (memoryFs (container_new (containerPath c) False)) p
           | Some NotAString \<Rightarrow> None
           | Some (JsonString s) \<Rightarrow> Some (base64_decode s))"
      using load_files_lookup [OF files_of_lookup(1) [OF dm] strings] by (simp add: c''_def)
    have 3: "(case map_of (files_of m) p of
             None \<Rightarrow> map_of (memoryFs (container_new (containerPath c) False)) p
           | Some NotAString \<Rightarrow> None
           | Some (JsonString s) \<Rightarrow> Some (base64_decode s))
        = (if p = ''__proto__'' then None else map_of m p)"
      unfolding files_of_lookup(2) [OF dm]
      by (cases "map_of m p") (simp_all add: base64_roundtrip container_new_def)
    show ?thesis unfolding 2 3 ..
  qed
  with 1 show ?thesis unfolding m_def by blast
qed

text \<open>
  The round trip of the simple format: \<open>save\<close> always returns, and a fresh store on the
  saved file holds, under every path but \<open>__proto__\<close>, exactly the bytes that the saving
  store held there.
\<close>

lemma save_load_roundtrip:
  assumes "\<not> isEmbedded c" and "distinct (map fst (memoryFs c))"
  shows "\<exists>h' c' c''. WormSimpleContainer_save now None h c = Some (h', c')
      \<and> WormSimpleContainer_load h' (container_new (containerPath c) False) = Some c''
      \<and> (''__proto__'' \<notin> fst ` set (memoryFs c') \<longrightarrow>
           map_of (memoryFs c'') = map_of (memoryFs c'))"
proof -
  obtain c' where l: "WormSimpleContainer_load h c = Some c'"
    unfolding simple_load_eq by blast
  note s = save_eq [OF l, of now]
  from save_load_lookup [OF assms(1) s simple_load_distinct [OF l assms(2)]]
  obtain c'' where c'': "WormSimpleContainer_load
        (h\<lparr>fs := (fs h)(containerPath c :=
           File (GzipJson \<lparr>version = ''1.0'', created = now,
                            files = files_of (memoryFs c')\<rparr>))\<rparr>)
        (container_new (containerPath c) False) = Some c''"
    and look: "\<And>p. map_of (memoryFs c'') p
                 = (if p = ''__proto__'' then None else map_of (memoryFs c') p)"
    by blast
  have "''__proto__'' \<notin> fst ` set (memoryFs c') \<Longrightarrow> map_of (memoryFs c'') = map_of (memoryFs c')"
  proof
    fix p
    assume "''__proto__'' \<notin> fst ` set (memoryFs c')"
    then have "map_of (memoryFs c') ''__proto__'' = None"
      by (simp add: map_of_eq_None_iff)
    then show "map_of (memoryFs c'') p = map_of (memoryFs c') p"
      unfolding look by (cases "p = ''__proto__''") simp_all
  qed
  with s c'' show ?thesis by blast
qed

text \<open>
  C2. The saved blob is the gzip compression of a JSON document with \<open>version\<close>
  \<open>1.0\<close>, the time of saving and the base64 text of every file, and base64 reads
  back exactly the bytes written (\<open>save_eq\<close>, \<open>base64_roundtrip\<close>,
  \<open>save_load_roundtrip\<close>). The round trip fails for a file stored under the path
  \<open>__proto__\<close>: \<open>save\<close> leaves it out of the document, and the fresh store does
  not have it. The three results are the map of the saving store, the saved file, and
  the map of the fresh store.
\<close>

theorem save_load_loses_proto:
  "Option.bind (WormSimpleContainer_write \<lparr>embedded_container = None, fs = (\<lambda>p. Missing)\<rparr>
       ''a.txt'' [104, 105] (container_new ''container.worm'' False))
     (\<lambda>c1. Option.bind (WormSimpleContainer_write
          \<lparr>embedded_container = None, fs = (\<lambda>p. Missing)\<rparr> ''__proto__'' [0, 255] c1)
       (\<lambda>c2. Option.bind (WormSimpleContainer_save ''2024-01-01T00:00:00.000Z'' None
            \<lparr>embedded_container = None, fs = (\<lambda>p. Missing)\<rparr> c2)
         (\<lambda>(h', c3). Option.bind
            (WormSimpleContainer_load h' (container_new ''container.worm'' False))
            (\<lambda>c4. Some (memoryFs c3, fs h' ''container.worm'', memoryFs c4)))))
     = Some ([(''a.txt'', [104, 105]), (''__proto__'', [0, 255])],
             File (GzipJson \<lparr>version = ''1.0'', created = ''2024-01-01T00:00:00.000Z'',
                               files = [(''a.txt'', JsonString ''aGk='')]\<rparr>),
             [(''a.txt'', [104, 105])])"
  by code_simp

end
